theory Spec2Isabelle
  imports Main
begin

section \<open>Data model (src/types/index.ts)\<close>

text \<open>
  The TypeScript interfaces \<^verbatim>\<open>Customer\<close> and \<^verbatim>\<open>Training\<close>. An optional member
  (\<^verbatim>\<open>id?\<close>, \<^verbatim>\<open>links?\<close>, \<^verbatim>\<open>customer?\<close>) is an \<open>option\<close>; a relation object
  \<^verbatim>\<open>{ href: string }\<close> is a \<open>link\<close>.

  A JavaScript \<^verbatim>\<open>number\<close> is represented by the text that \<^verbatim>\<open>String\<close> and a template
  literal give for it: \<open>Number ''5''\<close>, \<open>Number ''0''\<close>, \<open>Number ''1.5''\<close>,
  \<open>Number ''1e+21''\<close>, \<open>Number ''NaN''\<close>. The client does no arithmetic on numbers; it
  prints them and tests their truthiness, which the text decides.

  \<^verbatim>\<open>Training\<close> has the type of its \<^verbatim>\<open>customer\<close> member as a parameter: \<open>customer\<close> as
  declared, for a training inside a delivered array, and any delivered data for a
  training of the component state, where the lazy loader stores \<^verbatim>\<open>response.data\<close>
  unchecked.
\<close>

datatype link = Link (href: string)

datatype number = Number (printed: string)

record customer_links =
  c_self :: link
  c_customer :: link
  c_trainings :: link

record customer =
  customer_id :: "number option"
  firstname :: string
  lastname :: string
  streetaddress :: string
  postcode :: string
  city :: string
  email :: string
  phone :: string
  customer_links :: "customer_links option"

record training_links =
  t_self :: link
  t_training :: link
  t_customer :: link

record 'd training =
  training_id :: "number option"
  date :: string
  duration :: number
  activity :: string
  training_customer :: "'d option"
  training_links :: "training_links option"

text \<open>The argument of \<^verbatim>\<open>addTraining\<close> and \<^verbatim>\<open>updateTraining\<close>:
  \<^verbatim>\<open>Omit<Training, 'links' | 'customer'> & { customer: string }\<close>; the same four members
  make up the request body \<^verbatim>\<open>trainingPayload\<close>.\<close>

record training_payload =
  p_date :: string
  p_duration :: number
  p_activity :: string
  p_customer :: string

section \<open>Strings and truthiness\<close>

text \<open>JavaScript truthiness of a value of type \<^verbatim>\<open>string | undefined | null\<close>: absent and
  the empty string are falsy.\<close>

definition truthy :: "string option \<Rightarrow> bool" where
  "truthy v = (case v of None \<Rightarrow> False | Some s \<Rightarrow> s \<noteq> [])"

text \<open>\<^verbatim>\<open>s.split(sep)\<close> for a one-character separator: never the empty array.\<close>

fun split :: "char \<Rightarrow> string \<Rightarrow> string list" where
  "split sep [] = [[]]"
| "split sep (c # cs) =
     (if c = sep then [] # split sep cs
      else (case split sep cs of
              [] \<Rightarrow> [[c]]
            | p # ps \<Rightarrow> (c # p) # ps))"

definition startsWith :: "string \<Rightarrow> string \<Rightarrow> bool" where
  "startsWith s p = (take (length p) s = p)"

text \<open>Truthiness of a number: every number but 0, -0 (both print as \<open>0\<close>) and NaN.\<close>

definition truthy_number :: "number \<Rightarrow> bool" where
  "truthy_number n = (printed n \<noteq> ''0'' \<and> printed n \<noteq> ''NaN'')"

section \<open>Configuration (services/api.ts)\<close>

definition API_BASE_URL :: string where
  "API_BASE_URL = ''https://customer-rest-service-frontend-personaltrainer.2.rahtiapp.fi/api''"

definition ENDPOINTS_customers :: string where
  "ENDPOINTS_customers = API_BASE_URL @ ''/customers''"

definition ENDPOINTS_trainings :: string where
  "ENDPOINTS_trainings = API_BASE_URL @ ''/trainings''"

definition ENDPOINTS_getTrainings :: string where
  "ENDPOINTS_getTrainings = API_BASE_URL @ ''/gettrainings''"

definition ENDPOINTS_reset :: string where
  "ENDPOINTS_reset = API_BASE_URL @ ''/reset''"

section \<open>Identity resolver\<close>

text \<open>\<^verbatim>\<open>extractIdFromUrl(url?: string): string | null\<close>\<close>

definition extractIdFromUrl :: "string option \<Rightarrow> string option" where
  "extractIdFromUrl url =
     (case url of
        None \<Rightarrow> None
      | Some u \<Rightarrow>
          if u = [] then None
          else let parts = split CHR ''/'' u;
                   l = parts ! (length parts - 1)
               in if l = [] then None else Some l)"

text \<open>\<^verbatim>\<open>customer?.links?.self?.href\<close> and \<^verbatim>\<open>customer?.links?.customer?.href\<close>\<close>

definition links_self_href :: "customer \<Rightarrow> string option" where
  "links_self_href c = map_option (\<lambda>l. href (c_self l)) (customer_links c)"

definition links_customer_href :: "customer \<Rightarrow> string option" where
  "links_customer_href c = map_option (\<lambda>l. href (c_customer l)) (customer_links c)"

text \<open>The union type \<^verbatim>\<open>Customer | string\<close>.\<close>

datatype customer_or_string = Entity customer | Address string

definition getCustomerId :: "customer_or_string \<Rightarrow> string option" where
  "getCustomerId x =
     (case x of
        Address s \<Rightarrow> extractIdFromUrl (Some s)
      | Entity c \<Rightarrow>
          if truthy (links_self_href c) then extractIdFromUrl (links_self_href c)
          else if truthy (links_customer_href c) then extractIdFromUrl (links_customer_href c)
          else None)"

section \<open>The network\<close>

text \<open>
  A request as \<^verbatim>\<open>fetch\<close> receives it: method, address and the value given to
  \<^verbatim>\<open>JSON.stringify\<close> for the body.
\<close>

datatype http_method = GET | POST | PUT | DELETE

datatype request_body = NoBody | CustomerJson customer | TrainingJson training_payload

datatype request = Request (req_method: http_method) (url: string) (body: request_body)

text \<open>
  The body of a response, as decoding finds it. \<open>NotJson raw\<close> is a body that is not
  JSON: \<^verbatim>\<open>response.json()\<close> throws on it, and axios hands over the text \<open>raw\<close> as the
  data. The JSON documents are \<^verbatim>\<open>null\<close>, the documents the code declares
  (\<^verbatim>\<open>CustomerResponse\<close>, \<^verbatim>\<open>Customer\<close>, \<^verbatim>\<open>Training[]\<close>), with every member optional that
  the code reads through optional chaining (\<^verbatim>\<open>data?._embedded?.customers\<close> and
  \<^verbatim>\<open>apiCustomer._links?.self?.href\<close>), and \<open>OtherJson\<close>: any other JSON value, in which
  the client finds none of the members it reads (\<^verbatim>\<open>_embedded\<close>, \<^verbatim>\<open>links\<close>,
  \<^verbatim>\<open>firstname\<close>), with its truthiness. Every call site receives whatever document
  the backend delivers, whether or not it has the shape the site declares.
\<close>

datatype api_link = ApiLink (api_href: "string option")

record api_links =
  api_self :: "api_link option"
  api_customer :: "api_link option"
  api_trainings :: "api_link option"

record api_customer =
  api_firstname :: string
  api_lastname :: string
  api_streetaddress :: string
  api_postcode :: string
  api_city :: string
  api_email :: string
  api_phone :: string
  api__links :: "api_links option"

datatype embedded = Embedded (embedded_customers: "api_customer list option")

datatype customer_response = CustomerResponse (response__embedded: "embedded option")

datatype json_body =
    NotJson string
  | JsonNull
  | OtherJson bool
  | CustomersDoc customer_response
  | CustomerDoc customer
  | TrainingsDoc "customer training list"

text \<open>A training of the component state.\<close>

type_synonym loaded_training = "json_body training"

record response =
  status :: nat
  json :: json_body

text \<open>\<^verbatim>\<open>response.ok\<close>: the status is in the range 200..299.\<close>

definition ok :: "response \<Rightarrow> bool" where
  "ok r = (200 \<le> status r \<and> status r \<le> 299)"

text \<open>The transport either fails (\<^verbatim>\<open>fetch\<close> rejects) or delivers a response. The backend
  is any function of the requests issued so far and the current request.\<close>

datatype outcome = Throws | Responds response

type_synonym server = "request list \<Rightarrow> request \<Rightarrow> outcome"

section \<open>Asynchronous operations: request log and exceptions\<close>

text \<open>
  An \<^verbatim>\<open>async\<close> function is a computation over the log of requests issued so far that
  ends either rejected with a thrown value (\<open>Inl\<close>) or fulfilled with a result (\<open>Inr\<close>).
\<close>

datatype exn = TransportError | SyntaxError | ApiError nat

type_synonym 'a io = "request list \<Rightarrow> (exn + 'a) \<times> request list"

definition io_return :: "'a \<Rightarrow> 'a io" where
  "io_return v = (\<lambda>log. (Inr v, log))"

definition io_throw :: "exn \<Rightarrow> 'a io" where
  "io_throw e = (\<lambda>log. (Inl e, log))"

definition io_bind :: "'a io \<Rightarrow> ('a \<Rightarrow> 'b io) \<Rightarrow> 'b io" where
  "io_bind m f = (\<lambda>log. case m log of
                          (Inl e, log') \<Rightarrow> (Inl e, log')
                        | (Inr v, log') \<Rightarrow> f v log')"

text \<open>\<^verbatim>\<open>try { m } catch { h }\<close>\<close>

definition io_try :: "'a io \<Rightarrow> (exn \<Rightarrow> 'a io) \<Rightarrow> 'a io" where
  "io_try m h = (\<lambda>log. case m log of
                         (Inl e, log') \<Rightarrow> h e log'
                       | (Inr v, log') \<Rightarrow> (Inr v, log'))"

text \<open>\<^verbatim>\<open>await fetch(url, { method, body })\<close>: the request is issued (appended to the log)
  whether or not the transport then fails.\<close>

definition fetch :: "server \<Rightarrow> request \<Rightarrow> response io" where
  "fetch srv req = (\<lambda>log. (case srv log req of
                              Throws \<Rightarrow> Inl TransportError
                            | Responds r \<Rightarrow> Inr r, log @ [req]))"

text \<open>\<^verbatim>\<open>await response.json()\<close>\<close>

definition response_json :: "response \<Rightarrow> json_body io" where
  "response_json response =
     (case json response of
        NotJson raw \<Rightarrow> io_throw SyntaxError
      | data \<Rightarrow> io_return data)"

text \<open>\<^verbatim>\<open>await axios.get<Customer>(url)\<close>, then \<^verbatim>\<open>response.data\<close>: axios rejects on a
  transport failure and on a status outside 200..299, and otherwise delivers the body
  whatever it is.\<close>

definition axios_get :: "server \<Rightarrow> string \<Rightarrow> json_body io" where
  "axios_get srv u =
     io_bind (fetch srv (Request GET u NoBody)) (\<lambda>response.
       if \<not> ok response then io_throw (ApiError (status response))
       else io_return (json response))"

section \<open>Customer API\<close>

text \<open>The object literal built for each element of \<^verbatim>\<open>data._embedded.customers\<close>;
  \<^verbatim>\<open>apiCustomer._links?.self?.href || ''\<close> is \<open>href_or_empty\<close>.\<close>

definition href_or_empty :: "api_link option \<Rightarrow> link" where
  "href_or_empty l =
     (case l of
        None \<Rightarrow> Link []
      | Some (ApiLink None) \<Rightarrow> Link []
      | Some (ApiLink (Some h)) \<Rightarrow> Link h)"

definition normalize_links :: "api_links option \<Rightarrow> customer_links" where
  "normalize_links ls =
     \<lparr> c_self = href_or_empty (Option.bind ls api_self),
       c_customer = href_or_empty (Option.bind ls api_customer),
       c_trainings = href_or_empty (Option.bind ls api_trainings) \<rparr>"

definition normalize_customer :: "api_customer \<Rightarrow> customer" where
  "normalize_customer a =
     \<lparr> customer_id = None,
       firstname = api_firstname a,
       lastname = api_lastname a,
       streetaddress = api_streetaddress a,
       postcode = api_postcode a,
       city = api_city a,
       email = api_email a,
       phone = api_phone a,
       customer_links = Some (normalize_links (api__links a)) \<rparr>"

text \<open>\<^verbatim>\<open>getCustomers(): Promise<Customer[]>\<close>\<close>

definition getCustomers :: "server \<Rightarrow> customer list io" where
  "getCustomers srv =
     io_try
       (io_bind (fetch srv (Request GET ENDPOINTS_customers NoBody)) (\<lambda>response.
          if \<not> ok response then io_throw (ApiError (status response))
          else io_bind (response_json response) (\<lambda>data.
                 case data of
                   CustomersDoc (CustomerResponse (Some (Embedded (Some cs)))) \<Rightarrow>
                     io_return (map normalize_customer cs)
                 | _ \<Rightarrow> io_return [])))
       (\<lambda>error. io_return [])"

text \<open>\<^verbatim>\<open>addCustomer(customer): Promise<boolean>\<close>\<close>

definition addCustomer :: "server \<Rightarrow> customer \<Rightarrow> bool io" where
  "addCustomer srv c =
     io_try
       (io_bind (fetch srv (Request POST ENDPOINTS_customers (CustomerJson c))) (\<lambda>response.
          io_return (status response = 201)))
       (\<lambda>error. io_return False)"

text \<open>The predicate given to \<^verbatim>\<open>allCustomers.find\<close>.\<close>

definition matches :: "customer \<Rightarrow> customer \<Rightarrow> bool" where
  "matches customer c =
     (firstname c = firstname customer \<and>
      lastname c = lastname customer \<and>
      email c = email customer)"

text \<open>\<^verbatim>\<open>findCustomerByData(customer): Promise<Customer | null>\<close>. The result is a
  document: the decoded body of the lookup by identifier, whatever it is, or the first
  listed customer with the same attributes, or \<^verbatim>\<open>null\<close>.
  \<open>lookup_by_id\<close> is the inner \<^verbatim>\<open>try\<close> block under \<^verbatim>\<open>if (customerId)\<close>: \<open>Some result\<close>
  when it returns \<open>result\<close> from the function, \<open>None\<close> when control falls through to the
  fallback, which is also what its \<^verbatim>\<open>catch\<close> does. \<open>find_by_attributes\<close> is the fallback
  that lists the collection and compares attributes, ending with
  \<^verbatim>\<open>matchingCustomer || null\<close>.\<close>

definition lookup_by_id :: "server \<Rightarrow> string \<Rightarrow> json_body option io" where
  "lookup_by_id srv customerId =
     io_try
       (io_bind (fetch srv (Request GET (ENDPOINTS_customers @ ''/'' @ customerId) NoBody))
          (\<lambda>response.
             if ok response then
               io_bind (response_json response) (\<lambda>result. io_return (Some result))
             else io_return None))
       (\<lambda>error. io_return None)"

definition find_by_attributes :: "server \<Rightarrow> customer \<Rightarrow> json_body io" where
  "find_by_attributes srv customer =
     io_bind (getCustomers srv) (\<lambda>allCustomers.
       io_return (case find (matches customer) allCustomers of
                    Some matchingCustomer \<Rightarrow> CustomerDoc matchingCustomer
                  | None \<Rightarrow> JsonNull))"

definition findCustomerByData :: "server \<Rightarrow> customer \<Rightarrow> json_body io" where
  "findCustomerByData srv customer =
     io_try
       (let customerId = getCustomerId (Entity customer) in
        if truthy customerId then
          io_bind (lookup_by_id srv (the customerId)) (\<lambda>found.
            case found of
              Some result \<Rightarrow> io_return result
            | None \<Rightarrow> find_by_attributes srv customer)
        else find_by_attributes srv customer)
       (\<lambda>error. io_return JsonNull)"

text \<open>\<^verbatim>\<open>matchingCustomer?.links?.self?.href\<close> on the document that
  \<^verbatim>\<open>findCustomerByData\<close> returned: only a customer document has \<^verbatim>\<open>links\<close>.\<close>

definition document_self_href :: "json_body \<Rightarrow> string option" where
  "document_self_href matchingCustomer =
     (case matchingCustomer of
        CustomerDoc c \<Rightarrow> links_self_href c
      | _ \<Rightarrow> None)"

text \<open>\<^verbatim>\<open>updateCustomer(customer): Promise<boolean>\<close>\<close>

definition updateCustomer :: "server \<Rightarrow> customer \<Rightarrow> bool io" where
  "updateCustomer srv customer =
     io_try
       (if truthy (links_self_href customer) then
          io_bind (fetch srv (Request PUT (the (links_self_href customer)) (CustomerJson customer)))
            (\<lambda>response. io_return (ok response))
        else
          let customerId = getCustomerId (Entity customer) in
          if truthy customerId then
            io_bind (fetch srv (Request PUT (ENDPOINTS_customers @ ''/'' @ the customerId)
                                  (CustomerJson customer)))
              (\<lambda>response. io_return (ok response))
          else
            io_bind (findCustomerByData srv customer) (\<lambda>matchingCustomer.
              if truthy (document_self_href matchingCustomer) then
                io_bind (fetch srv (Request PUT (the (document_self_href matchingCustomer))
                                      (CustomerJson customer)))
                  (\<lambda>response. io_return (ok response))
              else addCustomer srv customer))
       (\<lambda>error. io_return False)"

text \<open>\<^verbatim>\<open>deleteCustomer(customer: Customer | string): Promise<boolean>\<close>\<close>

definition deleteCustomer :: "server \<Rightarrow> customer_or_string \<Rightarrow> bool io" where
  "deleteCustomer srv x =
     io_try
       (case x of
          Address s \<Rightarrow>
            if startsWith s ''http'' then
              io_bind (fetch srv (Request DELETE s NoBody)) (\<lambda>response. io_return (ok response))
            else
              io_bind (fetch srv (Request DELETE (ENDPOINTS_customers @ ''/'' @ s) NoBody))
                (\<lambda>response. io_return (ok response))
        | Entity customer \<Rightarrow>
            if truthy (links_self_href customer) then
              io_bind (fetch srv (Request DELETE (the (links_self_href customer)) NoBody))
                (\<lambda>response. io_return (ok response))
            else
              io_bind (findCustomerByData srv customer) (\<lambda>matchingCustomer.
                if truthy (document_self_href matchingCustomer) then
                  io_bind (fetch srv (Request DELETE (the (document_self_href matchingCustomer))
                                        NoBody))
                    (\<lambda>response. io_return (ok response))
                else io_return False))
       (\<lambda>error. io_return False)"

section \<open>Training API\<close>

text \<open>\<^verbatim>\<open>getTrainings(): Promise<Training[]>\<close>. The result is the decoded body as
  delivered (declared to be an array of trainings, \<open>TrainingsDoc\<close>), or the empty
  array from the \<^verbatim>\<open>catch\<close>.\<close>

definition getTrainings :: "server \<Rightarrow> json_body io" where
  "getTrainings srv =
     io_try
       (io_bind (fetch srv (Request GET ENDPOINTS_getTrainings NoBody)) (\<lambda>response.
          if \<not> ok response then io_throw (ApiError (status response))
          else response_json response))
       (\<lambda>error. io_return (TrainingsDoc []))"

text \<open>The request body of \<^verbatim>\<open>addTraining\<close> and \<^verbatim>\<open>updateTraining\<close>.\<close>

definition trainingPayload :: "training_payload \<Rightarrow> training_payload" where
  "trainingPayload training =
     (let customerUrl = p_customer training;
          customerUrl = (if \<not> startsWith customerUrl ''http''
                         then ENDPOINTS_customers @ ''/'' @ p_customer training
                         else customerUrl)
      in \<lparr> p_date = p_date training,
           p_duration = p_duration training,
           p_activity = p_activity training,
           p_customer = customerUrl \<rparr>)"

text \<open>\<^verbatim>\<open>addTraining(training): Promise<boolean>\<close>\<close>

definition addTraining :: "server \<Rightarrow> training_payload \<Rightarrow> bool io" where
  "addTraining srv training =
     io_try
       (io_bind (fetch srv (Request POST ENDPOINTS_trainings (TrainingJson (trainingPayload training))))
          (\<lambda>response. io_return (ok response)))
       (\<lambda>error. io_return False)"

text \<open>\<^verbatim>\<open>updateTraining(trainingId, training): Promise<boolean>\<close>\<close>

definition updateTraining :: "server \<Rightarrow> string \<Rightarrow> training_payload \<Rightarrow> bool io" where
  "updateTraining srv trainingId training =
     io_try
       (let updateUrl = ENDPOINTS_trainings @ ''/'' @ trainingId in
        io_bind (fetch srv (Request PUT updateUrl (TrainingJson (trainingPayload training))))
          (\<lambda>response. io_return (ok response)))
       (\<lambda>error. io_return False)"

text \<open>\<^verbatim>\<open>deleteTraining(training: Training | string): Promise<boolean>\<close>\<close>

datatype 'd training_or_string = TrainingEntity "'d training" | TrainingAddress string

definition t_links_self_href :: "'d training \<Rightarrow> string option" where
  "t_links_self_href t = map_option (\<lambda>l. href (t_self l)) (training_links t)"

definition deleteUrl :: "'d training_or_string \<Rightarrow> string option" where
  "deleteUrl x =
     (case x of
        TrainingAddress s \<Rightarrow>
          Some (if startsWith s ''http'' then s else ENDPOINTS_trainings @ ''/'' @ s)
      | TrainingEntity t \<Rightarrow>
          if truthy (t_links_self_href t) then t_links_self_href t
          else (case training_id t of
                  Some i \<Rightarrow> if truthy_number i
                            then Some (ENDPOINTS_trainings @ ''/'' @ printed i)
                            else None
                | None \<Rightarrow> None))"

definition deleteTraining :: "server \<Rightarrow> 'd training_or_string \<Rightarrow> bool io" where
  "deleteTraining srv x =
     io_try
       (case deleteUrl x of
          None \<Rightarrow> io_return False
        | Some u \<Rightarrow>
            io_bind (fetch srv (Request DELETE u NoBody)) (\<lambda>response. io_return (ok response)))
       (\<lambda>error. io_return False)"

text \<open>\<^verbatim>\<open>resetDatabase(): Promise<boolean>\<close>\<close>

definition resetDatabase :: "server \<Rightarrow> bool io" where
  "resetDatabase srv =
     io_try
       (io_bind (fetch srv (Request POST ENDPOINTS_reset NoBody)) (\<lambda>response.
          io_return (ok response)))
       (\<lambda>error. io_return False)"

section \<open>Relation lazy loader (components/TrainingList.tsx)\<close>

text \<open>
  The component state \<^verbatim>\<open>trainings\<close> starts as \<^verbatim>\<open>useState<Training[]>([])\<close>.
\<close>

definition initial_trainings :: "loaded_training list" where
  "initial_trainings = []"

text \<open>Truthiness of \<^verbatim>\<open>training.customer\<close>, and
  \<^verbatim>\<open>training.customer && training.customer.firstname\<close> with the name the column then
  shows.\<close>

definition truthy_data :: "json_body option \<Rightarrow> bool" where
  "truthy_data v =
     (case v of
        None \<Rightarrow> False
      | Some (NotJson raw) \<Rightarrow> raw \<noteq> []
      | Some JsonNull \<Rightarrow> False
      | Some (OtherJson b) \<Rightarrow> b
      | Some _ \<Rightarrow> True)"

definition customer_name :: "json_body option \<Rightarrow> string option" where
  "customer_name v =
     (case v of
        Some (CustomerDoc c) \<Rightarrow>
          if firstname c \<noteq> [] then Some (firstname c @ '' '' @ lastname c) else None
      | _ \<Rightarrow> None)"

text \<open>
  \<^verbatim>\<open>fetchCustomerForTraining\<close> is a \<^verbatim>\<open>useCallback\<close> closure over the state variable
  \<^verbatim>\<open>trainings\<close> of the render that created it; that captured list is the argument
  \<open>trainings\<close> here. The result is \<open>Some updatedTrainings\<close> when
  \<^verbatim>\<open>setTrainings(updatedTrainings)\<close> is called and \<open>None\<close> when the state is left alone
  (the guard fails, or the request fails and the error is logged).
  \<^verbatim>\<open>t.links?.self.href\<close> is \<open>t_links_self_href t\<close>.
\<close>

definition merge_customer ::
    "loaded_training \<Rightarrow> json_body \<Rightarrow> loaded_training list \<Rightarrow> loaded_training list" where
  "merge_customer training data trainings =
     map (\<lambda>t. if t_links_self_href t = t_links_self_href training
              then t\<lparr>training_customer := Some data\<rparr>
              else t) trainings"

definition fetchCustomerForTraining ::
    "server \<Rightarrow> loaded_training list \<Rightarrow> loaded_training \<Rightarrow> loaded_training list option io" where
  "fetchCustomerForTraining srv trainings training =
     (case training_links training of
        Some links \<Rightarrow>
          if \<not> truthy_data (training_customer training) then
            io_try
              (io_bind (axios_get srv (href (t_customer links))) (\<lambda>data.
                 io_return (Some (merge_customer training data trainings))))
              (\<lambda>error. io_return None)
          else io_return None
      | None \<Rightarrow> io_return None)"

text \<open>
  The \<^verbatim>\<open>valueGetter\<close> of the Customer column, the only caller of the loader. The column
  definitions are built once, by \<^verbatim>\<open>useMemo(() => [...], [])\<close> in the first render, so
  the \<^verbatim>\<open>fetchCustomerForTraining\<close> that the getter calls is the first render's
  closure, whose \<^verbatim>\<open>trainings\<close> is the initial state. The getter returns the text of
  the cell at once; the second component is the call of \<^verbatim>\<open>setTrainings\<close> that the
  load it started ends with, if any.
\<close>

definition valueGetter ::
    "server \<Rightarrow> loaded_training \<Rightarrow> (string \<times> loaded_training list option) io" where
  "valueGetter srv training =
     (case customer_name (training_customer training) of
        Some name \<Rightarrow> io_return (name, None)
      | None \<Rightarrow>
          if training_links training \<noteq> None then
            io_bind (fetchCustomerForTraining srv initial_trainings training) (\<lambda>update.
              io_return (''Loading...'', update))
          else io_return (''No Customer'', None))"

text \<open>The grid evaluating the Customer column for one row while the component state is
  \<open>state\<close>: the text shown and the state after the load has settled
  (\<^verbatim>\<open>setTrainings\<close> replaces the state).\<close>

definition customer_column ::
    "server \<Rightarrow> loaded_training list \<Rightarrow> loaded_training \<Rightarrow> (string \<times> loaded_training list) io" where
  "customer_column srv state training =
     io_bind (valueGetter srv training) (\<lambda>(cell, update).
       io_return (cell, case update of
                          None \<Rightarrow> state
                        | Some updatedTrainings \<Rightarrow> updatedTrainings))"

section \<open>Observations used in the statements\<close>

text \<open>What the backend answers to a request issued after the requests of \<open>log\<close>.\<close>

definition answered_ok :: "server \<Rightarrow> request list \<Rightarrow> request \<Rightarrow> bool" where
  "answered_ok srv log req = (case srv log req of Throws \<Rightarrow> False | Responds r \<Rightarrow> ok r)"

definition answered_created :: "server \<Rightarrow> request list \<Rightarrow> request \<Rightarrow> bool" where
  "answered_created srv log req =
     (case srv log req of Throws \<Rightarrow> False | Responds r \<Rightarrow> status r = 201)"

text \<open>A backend that answers no request with a status in 200..299.\<close>

definition unavailable :: "server \<Rightarrow> bool" where
  "unavailable srv = (\<forall>log req. \<not> answered_ok srv log req)"

text \<open>The last request of a log was answered with a status in 200..299.\<close>

definition last_answered_ok :: "server \<Rightarrow> request list \<Rightarrow> bool" where
  "last_answered_ok srv log = (log \<noteq> [] \<and> answered_ok srv (butlast log) (last log))"

text \<open>The requests the operations issue.\<close>

definition list_request :: request where
  "list_request = Request GET ENDPOINTS_customers NoBody"

definition put_request :: "string \<Rightarrow> customer \<Rightarrow> request" where
  "put_request u c = Request PUT u (CustomerJson c)"

definition create_request :: "customer \<Rightarrow> request" where
  "create_request c = Request POST ENDPOINTS_customers (CustomerJson c)"

definition delete_request :: "string \<Rightarrow> request" where
  "delete_request u = Request DELETE u NoBody"

definition get_request :: "string \<Rightarrow> request" where
  "get_request u = Request GET u NoBody"

definition create_training_request :: "training_payload \<Rightarrow> request" where
  "create_training_request b = Request POST ENDPOINTS_trainings (TrainingJson b)"

text \<open>The embedded array of a decoded payload, when it has one, and the customers the
  backend lists when asked after \<open>log\<close>.\<close>

definition embedded_array :: "json_body \<Rightarrow> api_customer list option" where
  "embedded_array j =
     (case j of
        CustomersDoc (CustomerResponse (Some (Embedded (Some cs)))) \<Rightarrow> Some cs
      | _ \<Rightarrow> None)"

definition listed_customers :: "server \<Rightarrow> request list \<Rightarrow> customer list" where
  "listed_customers srv log =
     (case srv log list_request of
        Throws \<Rightarrow> []
      | Responds r \<Rightarrow>
          if ok r then (case embedded_array (json r) of
                          Some cs \<Rightarrow> map normalize_customer cs
                        | None \<Rightarrow> [])
          else [])"

text \<open>The \<open>self\<close> address of the customer the comparison of attributes found, if any, and
  the document \<^verbatim>\<open>matchingCustomer || null\<close> it is returned as.\<close>

definition matching_self_href :: "customer option \<Rightarrow> string option" where
  "matching_self_href m = Option.bind m links_self_href"

definition as_document :: "customer option \<Rightarrow> json_body" where
  "as_document m = (case m of None \<Rightarrow> JsonNull | Some c \<Rightarrow> CustomerDoc c)"

text \<open>What the lookup by identifier, issued after \<open>log\<close>, yields: the decoded document of
  an answer with a status in 200..299, or nothing when the transport fails, the status
  is another one or the body is not JSON.\<close>

definition id_request :: "string \<Rightarrow> request" where
  "id_request i = Request GET (ENDPOINTS_customers @ ''/'' @ i) NoBody"

definition id_lookup :: "server \<Rightarrow> request list \<Rightarrow> string \<Rightarrow> json_body option" where
  "id_lookup srv log i =
     (case srv log (id_request i) of
        Throws \<Rightarrow> None
      | Responds r \<Rightarrow>
          if ok r then (case json r of NotJson raw \<Rightarrow> None | d \<Rightarrow> Some d) else None)"

text \<open>The address \<^verbatim>\<open>deleteCustomer\<close> uses for a string argument.\<close>

definition customer_address :: "string \<Rightarrow> string" where
  "customer_address s = (if startsWith s ''http'' then s else ENDPOINTS_customers @ ''/'' @ s)"

text \<open>The address the backend gives for a relation of a listed customer:
  \<^verbatim>\<open>apiCustomer._links?.<relation>?.href\<close>.\<close>

definition backend_href :: "api_customer \<Rightarrow> (api_links \<Rightarrow> api_link option) \<Rightarrow> string option" where
  "backend_href a relation = Option.bind (Option.bind (api__links a) relation) api_href"

definition or_empty :: "string option \<Rightarrow> string" where
  "or_empty v = (case v of None \<Rightarrow> [] | Some h \<Rightarrow> h)"

text \<open>An entity without relation addresses: \<^verbatim>\<open>links\<close> is absent or every address in it
  is the empty placeholder.\<close>

definition no_relation_addresses :: "customer \<Rightarrow> bool" where
  "no_relation_addresses c =
     (case customer_links c of
        None \<Rightarrow> True
      | Some l \<Rightarrow> href (c_self l) = [] \<and> href (c_customer l) = [] \<and> href (c_trainings l) = [])"

section \<open>Example entities and backends\<close>

definition bare_customer :: customer where
  "bare_customer =
     \<lparr> customer_id = None, firstname = ''Anna'', lastname = ''Aalto'',
       streetaddress = ''Katu 1'', postcode = ''00100'', city = ''Helsinki'',
       email = ''anna@example.com'', phone = ''040'', customer_links = None \<rparr>"

definition keyed_customer :: customer where
  "keyed_customer = bare_customer\<lparr>customer_id := Some (Number ''5'')\<rparr>"

definition linked_customer :: customer where
  "linked_customer =
     bare_customer\<lparr>customer_id := Some (Number ''5''),
                   customer_links := Some \<lparr> c_self = Link ''https://host/api/customers/7'',
                                           c_customer = Link ''https://host/api/customers/9'',
                                           c_trainings = Link [] \<rparr>\<rparr>"

definition customer_linked_only :: customer where
  "customer_linked_only =
     bare_customer\<lparr>customer_links := Some \<lparr> c_self = Link [],
                                           c_customer = Link ''https://host/api/customers/9'',
                                           c_trainings = Link [] \<rparr>\<rparr>"

definition api_anna :: "string option \<Rightarrow> api_customer" where
  "api_anna self_address =
     \<lparr> api_firstname = ''Anna'', api_lastname = ''Aalto'', api_streetaddress = ''Katu 1'',
       api_postcode = ''00100'', api_city = ''Helsinki'', api_email = ''anna@example.com'',
       api_phone = ''040'',
       api__links = Some \<lparr> api_self = Some (ApiLink self_address),
                            api_customer = None,
                            api_trainings = None \<rparr> \<rparr>"

definition yoga :: training_payload where
  "yoga = \<lparr> p_date = ''2024-01-01T10:00:00Z'', p_duration = Number ''60'', p_activity = ''Yoga'',
            p_customer = ''customers/5'' \<rparr>"

definition bare_training :: "'d training" where
  "bare_training =
     \<lparr> training_id = None, date = ''2024-01-01T10:00:00Z'', duration = Number ''60'',
       activity = ''Yoga'', training_customer = None, training_links = None \<rparr>"

definition linked_training :: "string \<Rightarrow> 'd training" where
  "linked_training self_address =
     bare_training\<lparr>training_links :=
       Some \<lparr> t_self = Link self_address,
              t_training = Link self_address,
              t_customer = Link ''https://host/api/customers/7'' \<rparr>\<rparr>"

text \<open>Backends: one that answers every request with the same status and document, one
  that cannot be reached, one that lists the given customers and answers every other
  request with 200, one that answers 204 to the first DELETE of an address and 404 to
  a repeated one, and one that holds the given customers, each at its \<open>self\<close> address:
  it lists those not yet deleted and answers a DELETE like the one before.\<close>

definition always :: "nat \<Rightarrow> json_body \<Rightarrow> server" where
  "always st j = (\<lambda>log req. Responds \<lparr> status = st, json = j \<rparr>)"

definition unreachable :: server where
  "unreachable = (\<lambda>log req. Throws)"

definition listing :: "api_customer list \<Rightarrow> server" where
  "listing cs =
     (\<lambda>log req.
        if req = list_request
        then Responds \<lparr> status = 200,
                        json = CustomersDoc (CustomerResponse (Some (Embedded (Some cs)))) \<rparr>
        else Responds \<lparr> status = 200, json = JsonNull \<rparr>)"

definition deleting :: server where
  "deleting =
     (\<lambda>log req.
        if req_method req = DELETE \<and> req \<in> set log
        then Responds \<lparr> status = 404, json = NotJson [] \<rparr>
        else Responds \<lparr> status = 204, json = NotJson [] \<rparr>)"

definition store :: "api_customer list \<Rightarrow> server" where
  "store cs =
     (\<lambda>log req.
        if req = list_request
        then Responds
               \<lparr> status = 200,
                 json = CustomersDoc (CustomerResponse (Some (Embedded (Some
                          (filter (\<lambda>a. delete_request (or_empty (backend_href a api_self))
                                         \<notin> set log) cs))))) \<rparr>
        else deleting log req)"

section \<open>Basic facts\<close>

lemma split_no_sep: "sep \<notin> set t \<Longrightarrow> split sep t = [t]"
  by (induction t) auto

lemma split_last_piece:
  "sep \<notin> set t \<Longrightarrow> \<exists>q qs. split sep (p @ sep # t) = q # qs @ [t]"
proof (induction p)
  case Nil
  then show ?case by (simp add: split_no_sep)
next
  case (Cons c p)
  then obtain q qs where "split sep (p @ sep # t) = q # qs @ [t]" by blast
  then show ?case by (cases "c = sep") auto
qed

lemma extractIdFromUrl_no_slash:
  assumes "CHR ''/'' \<notin> set t"
  shows "extractIdFromUrl (Some t) = (if t = [] then None else Some t)"
  using assms by (simp add: extractIdFromUrl_def split_no_sep)

lemma extractIdFromUrl_slash:
  assumes "CHR ''/'' \<notin> set t"
  shows "extractIdFromUrl (Some (p @ CHR ''/'' # t)) = (if t = [] then None else Some t)"
proof -
  obtain q qs where "split CHR ''/'' (p @ CHR ''/'' # t) = q # qs @ [t]"
    using split_last_piece [OF assms] by blast
  then show ?thesis by (simp add: extractIdFromUrl_def Let_def nth_append)
qed

lemma getCustomerId_truthy: "truthy (getCustomerId x) = (getCustomerId x \<noteq> None)"
  by (auto simp: getCustomerId_def extractIdFromUrl_def truthy_def Let_def
           split: customer_or_string.splits option.splits)

lemma no_relation_addresses_falsy:
  "no_relation_addresses c \<Longrightarrow>
     \<not> truthy (links_self_href c) \<and> \<not> truthy (links_customer_href c)"
  by (simp add: no_relation_addresses_def links_self_href_def links_customer_href_def
                truthy_def split: option.splits)

lemma find_filter:
  "find P xs = (case filter P xs of [] \<Rightarrow> None | x # ys \<Rightarrow> Some x)"
  by (induction xs) auto

subsection \<open>Running the operations\<close>

lemma io_try_bind:
  "m log = (Inr v, log') \<Longrightarrow> io_try (io_bind m f) h log = io_try (f v) h log'"
  by (simp add: io_try_def io_bind_def)

lemma io_try_return: "io_try (io_return v) h log = (Inr v, log)"
  by (simp add: io_try_def io_return_def)

lemma io_try_value:
  "m log = (Inr v, log') \<Longrightarrow> io_try m h log = (Inr v, log')"
  by (simp add: io_try_def)

lemma io_try_fulfilled: "\<exists>v log'. io_try m (\<lambda>error. io_return d) log = (Inr v, log')"
  by (cases "m log") (auto simp: io_try_def io_return_def split: sum.splits)

lemma mutation_apply:
  "io_try (io_bind (fetch srv req) (\<lambda>response. io_return (ok response)))
          (\<lambda>error. io_return False) log
   = (Inr (answered_ok srv log req), log @ [req])"
  by (simp add: io_try_def io_bind_def io_return_def fetch_def answered_ok_def
           split: outcome.splits)

lemma getCustomers_apply:
  "getCustomers srv log = (Inr (listed_customers srv log), log @ [list_request])"
  by (simp add: getCustomers_def listed_customers_def list_request_def embedded_array_def
                io_try_def io_bind_def io_return_def io_throw_def fetch_def response_json_def
           split: outcome.splits json_body.splits customer_response.splits option.splits
                  embedded.splits)

lemma addCustomer_apply:
  "addCustomer srv c log =
     (Inr (answered_created srv log (create_request c)), log @ [create_request c])"
  by (simp add: addCustomer_def io_try_def io_bind_def io_return_def fetch_def
                answered_created_def create_request_def split: outcome.splits)

lemma addTraining_apply:
  "addTraining srv t log =
     (Inr (answered_ok srv log (create_training_request (trainingPayload t))),
      log @ [create_training_request (trainingPayload t)])"
  by (simp add: addTraining_def mutation_apply create_training_request_def)

lemma deleteTraining_apply:
  "deleteTraining srv x log =
     (case deleteUrl x of
        None \<Rightarrow> (Inr False, log)
      | Some u \<Rightarrow> (Inr (answered_ok srv log (delete_request u)), log @ [delete_request u]))"
  by (simp add: deleteTraining_def mutation_apply io_try_return delete_request_def
           split: option.splits)

lemma document_self_href_as_document [simp]:
  "document_self_href (as_document m) = matching_self_href m"
  by (cases m) (simp_all add: document_self_href_def as_document_def matching_self_href_def)

lemma find_by_attributes_apply:
  "find_by_attributes srv c log =
     (Inr (as_document (find (matches c) (listed_customers srv log))), log @ [list_request])"
  by (simp add: find_by_attributes_def io_bind_def getCustomers_apply io_return_def
                as_document_def split: option.splits)

lemma findCustomerByData_unresolved:
  "\<not> truthy (getCustomerId (Entity c)) \<Longrightarrow>
     findCustomerByData srv c log =
       (Inr (as_document (find (matches c) (listed_customers srv log))), log @ [list_request])"
  by (simp add: findCustomerByData_def io_try_def find_by_attributes_apply)

lemma lookup_by_id_apply:
  "lookup_by_id srv i log = (Inr (id_lookup srv log i), log @ [id_request i])"
  by (simp add: lookup_by_id_def id_lookup_def id_request_def io_try_def io_bind_def
                io_return_def io_throw_def fetch_def response_json_def
           split: outcome.splits json_body.splits)

lemma findCustomerByData_resolved:
  "getCustomerId (Entity c) = Some i \<Longrightarrow>
     findCustomerByData srv c log =
       (case id_lookup srv log i of
          Some d \<Rightarrow> (Inr d, log @ [id_request i])
        | None \<Rightarrow>
            (Inr (as_document (find (matches c) (listed_customers srv (log @ [id_request i])))),
             log @ [id_request i, list_request]))"
  using getCustomerId_truthy [of "Entity c"]
  by (simp add: findCustomerByData_def io_try_def io_bind_def lookup_by_id_apply
                find_by_attributes_apply io_return_def split: option.splits)

lemma updateCustomer_apply:
  "updateCustomer srv c log =
     (if truthy (links_self_href c) then
        (Inr (answered_ok srv log (put_request (the (links_self_href c)) c)),
         log @ [put_request (the (links_self_href c)) c])
      else if truthy (getCustomerId (Entity c)) then
        (Inr (answered_ok srv log
                (put_request (ENDPOINTS_customers @ ''/'' @ the (getCustomerId (Entity c))) c)),
         log @ [put_request (ENDPOINTS_customers @ ''/'' @ the (getCustomerId (Entity c))) c])
      else
        (let m = find (matches c) (listed_customers srv log) in
         if truthy (matching_self_href m) then
           (Inr (answered_ok srv (log @ [list_request])
                   (put_request (the (matching_self_href m)) c)),
            log @ [list_request, put_request (the (matching_self_href m)) c])
         else
           (Inr (answered_created srv (log @ [list_request]) (create_request c)),
            log @ [list_request, create_request c])))"
proof (cases "truthy (links_self_href c)")
  case True
  then show ?thesis
    by (simp add: updateCustomer_def mutation_apply put_request_def)
next
  case no_self: False
  show ?thesis
  proof (cases "truthy (getCustomerId (Entity c))")
    case True
    with no_self show ?thesis
      by (simp add: updateCustomer_def mutation_apply put_request_def)
  next
    case no_id: False
    let ?m = "find (matches c) (listed_customers srv log)"
    have found: "findCustomerByData srv c log = (Inr (as_document ?m), log @ [list_request])"
      using no_id by (rule findCustomerByData_unresolved)
    show ?thesis
    proof (cases "truthy (matching_self_href ?m)")
      case True
      with no_self no_id show ?thesis
        by (simp add: updateCustomer_def io_try_bind [of "findCustomerByData srv c" log "as_document ?m", OF found]
                      mutation_apply put_request_def Let_def)
    next
      case False
      with no_self no_id show ?thesis
        by (simp add: updateCustomer_def io_try_bind [of "findCustomerByData srv c" log "as_document ?m", OF found]
                      io_try_value [of "addCustomer srv c", OF addCustomer_apply])
    qed
  qed
qed

lemma deleteCustomer_self:
  "truthy (links_self_href c) \<Longrightarrow>
     deleteCustomer srv (Entity c) log =
       (Inr (answered_ok srv log (delete_request (the (links_self_href c)))),
        log @ [delete_request (the (links_self_href c))])"
  by (simp add: deleteCustomer_def mutation_apply delete_request_def)

lemma deleteCustomer_unresolved:
  assumes no_self: "\<not> truthy (links_self_href c)"
    and no_id: "\<not> truthy (getCustomerId (Entity c))"
  shows "deleteCustomer srv (Entity c) log =
     (let m = find (matches c) (listed_customers srv log) in
      if truthy (matching_self_href m) then
        (Inr (answered_ok srv (log @ [list_request])
                (delete_request (the (matching_self_href m)))),
         log @ [list_request, delete_request (the (matching_self_href m))])
      else (Inr False, log @ [list_request]))"
proof -
  let ?m = "find (matches c) (listed_customers srv log)"
  have found: "findCustomerByData srv c log = (Inr (as_document ?m), log @ [list_request])"
    using no_id by (rule findCustomerByData_unresolved)
  show ?thesis
  proof (cases "truthy (matching_self_href ?m)")
    case True
    with no_self show ?thesis
      by (simp add: deleteCustomer_def io_try_bind [of "findCustomerByData srv c" log "as_document ?m", OF found]
                    mutation_apply delete_request_def Let_def)
  next
    case False
    with no_self show ?thesis
      by (simp add: deleteCustomer_def io_try_bind [of "findCustomerByData srv c" log "as_document ?m", OF found]
                    io_try_return)
  qed
qed

lemma getCustomerId_no_self:
  "\<not> truthy (links_self_href c) \<Longrightarrow>
     getCustomerId (Entity c) = extractIdFromUrl (links_customer_href c)"
  by (auto simp: getCustomerId_def truthy_def extractIdFromUrl_def split: option.splits)

lemma trainingPayload_update:
  "trainingPayload t =
     t\<lparr>p_customer := (if startsWith (p_customer t) ''http'' then p_customer t
                        else ENDPOINTS_customers @ ''/'' @ p_customer t)\<rparr>"
  by (cases t) (simp add: trainingPayload_def Let_def)

subsection \<open>Deleting a customer\<close>

lemma findCustomerByData_fulfilled:
  "\<exists>d log'. findCustomerByData srv c log = (Inr d, log')"
  unfolding findCustomerByData_def by (rule io_try_fulfilled)

lemma deleteCustomer_address:
  "deleteCustomer srv (Address s) log =
     (Inr (answered_ok srv log (delete_request (customer_address s))),
      log @ [delete_request (customer_address s)])"
  by (simp add: deleteCustomer_def mutation_apply delete_request_def customer_address_def)

lemma deleteCustomer_lookup:
  assumes "\<not> truthy (links_self_href c)"
    and found: "findCustomerByData srv c log = (Inr d, log')"
  shows "deleteCustomer srv (Entity c) log =
     (if truthy (document_self_href d) then
        (Inr (answered_ok srv log' (delete_request (the (document_self_href d)))),
         log' @ [delete_request (the (document_self_href d))])
      else (Inr False, log'))"
  using assms(1)
  by (simp add: deleteCustomer_def io_try_bind [of "findCustomerByData srv c" log d, OF found]
                mutation_apply io_try_return delete_request_def)

subsection \<open>A backend that answers nothing with success\<close>

lemma unavailable_ok: "unavailable srv \<Longrightarrow> \<not> answered_ok srv log req"
  by (simp add: unavailable_def)

lemma unavailable_created: "unavailable srv \<Longrightarrow> \<not> answered_created srv log req"
  using unavailable_ok [of srv log req]
  by (auto simp: answered_created_def answered_ok_def ok_def split: outcome.splits)

lemma unavailable_listed: "unavailable srv \<Longrightarrow> listed_customers srv log = []"
  using unavailable_ok [of srv log list_request]
  by (auto simp: listed_customers_def answered_ok_def split: outcome.splits)

lemma unavailable_id_lookup: "unavailable srv \<Longrightarrow> id_lookup srv log i = None"
  using unavailable_ok [of srv log "id_request i"]
  by (auto simp: id_lookup_def answered_ok_def split: outcome.splits)

lemma getTrainings_unavailable:
  "unavailable srv \<Longrightarrow> fst (getTrainings srv log) = Inr (TrainingsDoc [])"
  using unavailable_ok [of srv log "Request GET ENDPOINTS_getTrainings NoBody"]
  by (auto simp: getTrainings_def io_try_def io_bind_def io_return_def io_throw_def fetch_def
                 answered_ok_def split: outcome.splits)

lemma findCustomerByData_unavailable:
  assumes "unavailable srv"
  shows "\<exists>log'. findCustomerByData srv c log = (Inr JsonNull, log')"
proof (cases "getCustomerId (Entity c)")
  case None
  then show ?thesis
    using assms by (simp add: findCustomerByData_unresolved unavailable_listed truthy_def
                              as_document_def)
next
  case (Some i)
  then show ?thesis
    using assms by (simp add: findCustomerByData_resolved unavailable_id_lookup
                              unavailable_listed as_document_def)
qed

lemma updateCustomer_unavailable:
  "unavailable srv \<Longrightarrow> fst (updateCustomer srv c log) = Inr False"
  by (simp add: updateCustomer_apply unavailable_ok unavailable_created Let_def)

lemma deleteCustomer_unavailable:
  assumes "unavailable srv"
  shows "fst (deleteCustomer srv x log) = Inr False"
proof (cases x)
  case (Address s)
  then show ?thesis
    using assms by (simp add: deleteCustomer_address unavailable_ok)
next
  case (Entity c)
  show ?thesis
  proof (cases "truthy (links_self_href c)")
    case True
    then show ?thesis
      using assms Entity by (simp add: deleteCustomer_self unavailable_ok)
  next
    case False
    obtain log' where found: "findCustomerByData srv c log = (Inr JsonNull, log')"
      using findCustomerByData_unavailable [OF assms] by blast
    show ?thesis
      using Entity
      by (simp add: deleteCustomer_lookup [OF False found] document_self_href_def truthy_def)
  qed
qed

subsection \<open>Success needs a successful answer\<close>

lemma last_answered_ok_snoc:
  "last_answered_ok srv (log @ [req]) = answered_ok srv log req"
  by (simp add: last_answered_ok_def)

lemma last_answered_ok_snoc2:
  "last_answered_ok srv (log @ [r1, r2]) = answered_ok srv (log @ [r1]) r2"
  using last_answered_ok_snoc [of srv "log @ [r1]" r2] by simp

lemma created_ok: "answered_created srv log req \<Longrightarrow> answered_ok srv log req"
  by (auto simp: answered_created_def answered_ok_def ok_def split: outcome.splits)

lemma getTrainings_success:
  "fst (getTrainings srv log) \<noteq> Inr (TrainingsDoc []) \<Longrightarrow>
     last_answered_ok srv (snd (getTrainings srv log))"
  by (auto simp: getTrainings_def io_try_def io_bind_def io_return_def io_throw_def fetch_def
                 answered_ok_def last_answered_ok_def response_json_def
           split: outcome.splits json_body.splits if_splits)

lemma getCustomers_success:
  "fst (getCustomers srv log) \<noteq> Inr [] \<Longrightarrow> last_answered_ok srv (snd (getCustomers srv log))"
  by (auto simp: getCustomers_apply last_answered_ok_snoc listed_customers_def answered_ok_def
           split: outcome.splits if_splits)

lemma updateCustomer_success:
  "fst (updateCustomer srv c log) = Inr True \<Longrightarrow>
     last_answered_ok srv (snd (updateCustomer srv c log))"
  by (auto simp: updateCustomer_apply Let_def last_answered_ok_snoc last_answered_ok_snoc2
                 created_ok split: if_splits)

lemma deleteCustomer_success:
  assumes "fst (deleteCustomer srv x log) = Inr True"
  shows "last_answered_ok srv (snd (deleteCustomer srv x log))"
proof (cases x)
  case (Address s)
  with assms show ?thesis
    by (simp add: deleteCustomer_address last_answered_ok_snoc)
next
  case (Entity c)
  show ?thesis
  proof (cases "truthy (links_self_href c)")
    case True
    with assms Entity show ?thesis
      by (simp add: deleteCustomer_self last_answered_ok_snoc)
  next
    case False
    obtain d log' where found: "findCustomerByData srv c log = (Inr d, log')"
      using findCustomerByData_fulfilled by blast
    show ?thesis
      using assms Entity
      by (auto simp: deleteCustomer_lookup [OF False found] last_answered_ok_snoc
               split: if_splits)
  qed
qed

lemma training_mutations_success:
  "fst (addTraining srv p log) = Inr True \<Longrightarrow>
     last_answered_ok srv (snd (addTraining srv p log))"
  "fst (updateTraining srv i p log) = Inr True \<Longrightarrow>
     last_answered_ok srv (snd (updateTraining srv i p log))"
  "fst (deleteTraining srv y log) = Inr True \<Longrightarrow>
     last_answered_ok srv (snd (deleteTraining srv y log))"
  "fst (resetDatabase srv log) = Inr True \<Longrightarrow>
     last_answered_ok srv (snd (resetDatabase srv log))"
  "fst (addCustomer srv c log) = Inr True \<Longrightarrow>
     last_answered_ok srv (snd (addCustomer srv c log))"
  by (auto simp: addTraining_apply updateTraining_def resetDatabase_def mutation_apply
                 deleteTraining_apply addCustomer_apply created_ok last_answered_ok_snoc
           split: option.splits)

subsection \<open>Normalized customers\<close>

lemma href_or_empty_eq: "href_or_empty l = Link (or_empty (Option.bind l api_href))"
  by (cases l) (auto simp: href_or_empty_def or_empty_def split: api_link.splits option.splits)

lemma listed_customers_normalized:
  "c \<in> set (listed_customers srv log) \<Longrightarrow> \<exists>a. c = normalize_customer a"
proof (cases "srv log list_request")
  case Throws
  assume "c \<in> set (listed_customers srv log)"
  with Throws show ?thesis by (simp add: listed_customers_def)
next
  case (Responds r)
  assume "c \<in> set (listed_customers srv log)"
  with Responds show ?thesis
    by (cases "ok r"; cases "embedded_array (json r)") (auto simp: listed_customers_def)
qed

lemma normalize_customer_links:
  "customer_links (normalize_customer a) =
     Some \<lparr> c_self = Link (or_empty (backend_href a api_self)),
            c_customer = Link (or_empty (backend_href a api_customer)),
            c_trainings = Link (or_empty (backend_href a api_trainings)) \<rparr>"
  by (simp add: normalize_customer_def normalize_links_def href_or_empty_eq backend_href_def)

subsection \<open>The lazy loader\<close>

lemma axios_get_apply:
  "srv log (get_request u) = Responds r \<Longrightarrow> ok r \<Longrightarrow>
     axios_get srv u log = (Inr (json r), log @ [get_request u])"
  by (simp add: axios_get_def io_bind_def fetch_def get_request_def io_return_def)

lemma fetchCustomerForTraining_apply:
  assumes "training_links training = Some links"
    and "\<not> truthy_data (training_customer training)"
    and "srv log (get_request (href (t_customer links))) = Responds r" and "ok r"
  shows "fetchCustomerForTraining srv trainings training log =
     (Inr (Some (merge_customer training (json r) trainings)),
      log @ [get_request (href (t_customer links))])"
proof -
  have got: "axios_get srv (href (t_customer links)) log =
      (Inr (json r), log @ [get_request (href (t_customer links))])"
    using assms(3,4) by (rule axios_get_apply)
  show ?thesis
    using assms(1,2)
    by (simp add: fetchCustomerForTraining_def
                  io_try_bind [of "axios_get srv (href (t_customer links))" log "json r", OF got]
                  io_try_return)
qed

lemma customer_column_apply:
  assumes "customer_name (training_customer training) = None"
    and "training_links training = Some links"
    and "\<not> truthy_data (training_customer training)"
    and "srv log (get_request (href (t_customer links))) = Responds r" and "ok r"
  shows "customer_column srv state training log =
     (Inr (''Loading...'', []), log @ [get_request (href (t_customer links))])"
proof -
  have "fetchCustomerForTraining srv initial_trainings training log =
     (Inr (Some (merge_customer training (json r) initial_trainings)),
      log @ [get_request (href (t_customer links))])"
    using assms(2-5) by (rule fetchCustomerForTraining_apply)
  then show ?thesis
    using assms(1,2)
    by (simp add: customer_column_def valueGetter_def io_bind_def io_return_def
                  merge_customer_def initial_trainings_def)
qed

section \<open>Identity resolution\<close>

text \<open>
  C1 (amended). \<^verbatim>\<open>getCustomerId\<close> resolves an identifier, not an address, and never
  consults the numeric key. A raw address string resolves to its last path segment. For
  an entity: (1) if it carries a non-empty \<open>self\<close> relation address, the result is the
  last path segment of that address; (2) otherwise, if it carries a non-empty
  \<open>customer\<close> relation address, the last path segment of that one; (3) otherwise null.
  The result does not depend on the numeric key. The last path segment is what follows
  the last \<open>/\<close>; when nothing follows it (or the string is empty) the result is null.
\<close>

theorem getCustomerId_precedence:
  "getCustomerId (Address s) = extractIdFromUrl (Some s) \<and>
   (truthy (links_self_href c) \<longrightarrow>
      getCustomerId (Entity c) = extractIdFromUrl (links_self_href c)) \<and>
   (\<not> truthy (links_self_href c) \<and> truthy (links_customer_href c) \<longrightarrow>
      getCustomerId (Entity c) = extractIdFromUrl (links_customer_href c)) \<and>
   (\<not> truthy (links_self_href c) \<and> \<not> truthy (links_customer_href c) \<longrightarrow>
      getCustomerId (Entity c) = None) \<and>
   getCustomerId (Entity (c\<lparr>customer_id := k\<rparr>)) = getCustomerId (Entity c) \<and>
   (CHR ''/'' \<notin> set t \<longrightarrow>
      extractIdFromUrl (Some (p @ CHR ''/'' # t)) = (if t = [] then None else Some t) \<and>
      extractIdFromUrl (Some t) = (if t = [] then None else Some t))"
  using extractIdFromUrl_slash [of t p] extractIdFromUrl_no_slash [of t]
  by (simp add: getCustomerId_def links_self_href_def links_customer_href_def)

theorem getCustomerId_precedence_witness:
  "truthy (links_self_href linked_customer) \<and>
   getCustomerId (Entity linked_customer) = Some ''7'' \<and>
   \<not> truthy (links_self_href customer_linked_only) \<and>
   truthy (links_customer_href customer_linked_only) \<and>
   getCustomerId (Entity customer_linked_only) = Some ''9'' \<and>
   \<not> truthy (links_self_href keyed_customer) \<and>
   \<not> truthy (links_customer_href keyed_customer) \<and>
   getCustomerId (Entity keyed_customer) = None \<and>
   CHR ''/'' \<notin> set ''7'' \<and>
   extractIdFromUrl (Some (''https://host/api/customers'' @ CHR ''/'' # ''7'')) = Some ''7''"
  using getCustomerId_precedence [of "[]" linked_customer None "''7''" "''https://host/api/customers''"]
        getCustomerId_precedence [of "[]" customer_linked_only None "''7''" "[]"]
        getCustomerId_precedence [of "[]" keyed_customer None "''7''" "[]"]
  by (simp add: linked_customer_def customer_linked_only_def keyed_customer_def
                bare_customer_def links_self_href_def links_customer_href_def truthy_def
                extractIdFromUrl_def)

text \<open>As stated, C1 fails: an entity with the numeric key 5 and no relation address
  resolves to null rather than to a synthesized address, and an entity with a \<open>self\<close>
  address resolves to the trailing segment of that address rather than to the address
  unchanged.\<close>

theorem getCustomerId_counterexample:
  "customer_id keyed_customer = Some (Number ''5'') \<and>
   getCustomerId (Entity keyed_customer) = None \<and>
   links_self_href linked_customer = Some ''https://host/api/customers/7'' \<and>
   getCustomerId (Entity linked_customer) = Some ''7''"
  by (simp add: getCustomerId_def linked_customer_def keyed_customer_def bare_customer_def
                links_self_href_def links_customer_href_def truthy_def extractIdFromUrl_def)

section \<open>Entities without an address\<close>

text \<open>
  C2 (amended). For every customer without relation addresses the resolver returns null
  (whatever its numeric key), and \<^verbatim>\<open>deleteTraining\<close> on a training with no \<open>self\<close>
  address and no truthy numeric key (none, 0 or NaN) reports failure without issuing any
  request.
  \<^verbatim>\<open>updateCustomer\<close> and \<^verbatim>\<open>deleteCustomer\<close> on such a customer do not short-circuit:
  both first request the customer collection and look for the first listed customer
  with the same first name, last name and email. If it has a non-empty \<open>self\<close> address,
  the PUT or DELETE goes there and its outcome is reported; otherwise
  \<^verbatim>\<open>deleteCustomer\<close> reports failure and \<^verbatim>\<open>updateCustomer\<close> POSTs the customer as a
  new record, reporting success exactly when the status is 201.
\<close>

theorem unaddressable_entity:
  "(no_relation_addresses c \<longrightarrow>
      getCustomerId (Entity c) = None \<and>
      (let m = find (matches c) (listed_customers srv log) in
       deleteCustomer srv (Entity c) log =
         (if truthy (matching_self_href m)
          then (Inr (answered_ok srv (log @ [list_request])
                       (delete_request (the (matching_self_href m)))),
                log @ [list_request, delete_request (the (matching_self_href m))])
          else (Inr False, log @ [list_request])) \<and>
       updateCustomer srv c log =
         (if truthy (matching_self_href m)
          then (Inr (answered_ok srv (log @ [list_request])
                       (put_request (the (matching_self_href m)) c)),
                log @ [list_request, put_request (the (matching_self_href m)) c])
          else (Inr (answered_created srv (log @ [list_request]) (create_request c)),
                log @ [list_request, create_request c])))) \<and>
   (\<not> truthy (t_links_self_href t) \<and>
    (training_id t = None \<or> (\<exists>n. training_id t = Some n \<and> \<not> truthy_number n)) \<longrightarrow>
      deleteTraining srv (TrainingEntity t) log = (Inr False, log))"
proof -
  have training: "deleteTraining srv (TrainingEntity t) log = (Inr False, log)"
    if "\<not> truthy (t_links_self_href t)"
      "training_id t = None \<or> (\<exists>n. training_id t = Some n \<and> \<not> truthy_number n)"
    using that by (auto simp: deleteTraining_apply deleteUrl_def)
  have customer: "getCustomerId (Entity c) = None" 
     "\<not> truthy (links_self_href c)" "\<not> truthy (getCustomerId (Entity c))"
    if "no_relation_addresses c"
    using no_relation_addresses_falsy [OF that]
    by (simp_all add: getCustomerId_def truthy_def)
  show ?thesis
    using training customer
    by (simp add: Let_def updateCustomer_apply deleteCustomer_unresolved)
qed

theorem unaddressable_entity_witness:
  "no_relation_addresses bare_customer \<and>
   getCustomerId (Entity bare_customer) = None \<and>
   deleteCustomer unreachable (Entity bare_customer) [] = (Inr False, [list_request]) \<and>
   updateCustomer unreachable bare_customer [] =
     (Inr False, [list_request, create_request bare_customer]) \<and>
   \<not> truthy (t_links_self_href (bare_training :: customer training)) \<and>
   training_id (bare_training :: customer training) = None \<and>
   deleteTraining unreachable (TrainingEntity (bare_training :: customer training)) [] =
     (Inr False, [])"
  using unaddressable_entity [of bare_customer unreachable "[]"
                                 "bare_training :: customer training"]
  by (simp add: no_relation_addresses_def bare_customer_def bare_training_def
                t_links_self_href_def truthy_def listed_customers_def unreachable_def
                matching_self_href_def answered_created_def)

text \<open>As stated, C2 fails: on a customer with no key and no links, against a backend
  that answers 201 to everything, \<^verbatim>\<open>updateCustomer\<close> issues two requests and reports
  success, and \<^verbatim>\<open>deleteCustomer\<close> issues one request before it reports failure.\<close>

theorem unaddressable_entity_counterexample:
  "customer_id bare_customer = None \<and> customer_links bare_customer = None \<and>
   updateCustomer (always 201 JsonNull) bare_customer [] =
     (Inr True, [list_request, create_request bare_customer]) \<and>
   deleteCustomer (always 201 JsonNull) (Entity bare_customer) [] =
     (Inr False, [list_request])"
  by (simp add: updateCustomer_apply deleteCustomer_unresolved bare_customer_def
                links_self_href_def truthy_def getCustomerId_def links_customer_href_def
                listed_customers_def always_def ok_def embedded_array_def
                matching_self_href_def answered_created_def)

section \<open>Updating a customer\<close>

text \<open>
  C3 (amended). \<^verbatim>\<open>updateCustomer\<close> picks its address in this order and issues exactly
  the requests named: (1) if the entity has a non-empty \<open>self\<close> relation address, one PUT
  to it; (2) otherwise, if its \<open>customer\<close> relation address has a non-empty last path
  segment, one PUT to the customer collection address followed by \<open>/\<close> and that segment
  (the numeric key is not consulted); (3) otherwise a GET of the customer collection, and
  if the first listed customer with the same first name, last name and email has a
  non-empty \<open>self\<close> address, a PUT to that address; (4) otherwise, after that GET, a POST
  to the customer collection (the update becomes an insert), successful exactly when the
  status is 201. In (1)-(3) the outcome of the PUT is the result: a PUT that fails is
  reported as failure and no later strategy is tried.
\<close>

theorem updateCustomer_strategies:
  "(truthy (links_self_href c) \<longrightarrow>
      updateCustomer srv c log =
        (Inr (answered_ok srv log (put_request (the (links_self_href c)) c)),
         log @ [put_request (the (links_self_href c)) c])) \<and>
   (\<not> truthy (links_self_href c) \<and> extractIdFromUrl (links_customer_href c) = Some i \<longrightarrow>
      updateCustomer srv c log =
        (Inr (answered_ok srv log (put_request (ENDPOINTS_customers @ ''/'' @ i) c)),
         log @ [put_request (ENDPOINTS_customers @ ''/'' @ i) c])) \<and>
   (\<not> truthy (links_self_href c) \<and> extractIdFromUrl (links_customer_href c) = None \<and>
    find (matches c) (listed_customers srv log) = Some m \<and> truthy (links_self_href m) \<longrightarrow>
      updateCustomer srv c log =
        (Inr (answered_ok srv (log @ [list_request]) (put_request (the (links_self_href m)) c)),
         log @ [list_request, put_request (the (links_self_href m)) c])) \<and>
   (\<not> truthy (links_self_href c) \<and> extractIdFromUrl (links_customer_href c) = None \<and>
    \<not> truthy (matching_self_href (find (matches c) (listed_customers srv log))) \<longrightarrow>
      updateCustomer srv c log =
        (Inr (answered_created srv (log @ [list_request]) (create_request c)),
         log @ [list_request, create_request c]))"
proof (intro conjI impI)
  assume "truthy (links_self_href c)"
  then show "updateCustomer srv c log =
        (Inr (answered_ok srv log (put_request (the (links_self_href c)) c)),
         log @ [put_request (the (links_self_href c)) c])"
    by (simp add: updateCustomer_apply)
next
  assume a: "\<not> truthy (links_self_href c) \<and> extractIdFromUrl (links_customer_href c) = Some i"
  then have "getCustomerId (Entity c) = Some i"
    by (simp add: getCustomerId_no_self)
  moreover from this have "truthy (getCustomerId (Entity c))"
    using getCustomerId_truthy [of "Entity c"] by simp
  ultimately show "updateCustomer srv c log =
        (Inr (answered_ok srv log (put_request (ENDPOINTS_customers @ ''/'' @ i) c)),
         log @ [put_request (ENDPOINTS_customers @ ''/'' @ i) c])"
    using a by (simp add: updateCustomer_apply)
next
  assume a: "\<not> truthy (links_self_href c) \<and> extractIdFromUrl (links_customer_href c) = None \<and>
    find (matches c) (listed_customers srv log) = Some m \<and> truthy (links_self_href m)"
  then have "\<not> truthy (getCustomerId (Entity c))"
    by (simp add: getCustomerId_no_self truthy_def)
  then show "updateCustomer srv c log =
        (Inr (answered_ok srv (log @ [list_request]) (put_request (the (links_self_href m)) c)),
         log @ [list_request, put_request (the (links_self_href m)) c])"
    using a by (simp add: updateCustomer_apply matching_self_href_def)
next
  assume a: "\<not> truthy (links_self_href c) \<and> extractIdFromUrl (links_customer_href c) = None \<and>
    \<not> truthy (matching_self_href (find (matches c) (listed_customers srv log)))"
  then have "\<not> truthy (getCustomerId (Entity c))"
    by (simp add: getCustomerId_no_self truthy_def)
  then show "updateCustomer srv c log =
        (Inr (answered_created srv (log @ [list_request]) (create_request c)),
         log @ [list_request, create_request c])"
    using a by (simp add: updateCustomer_apply)
qed

theorem updateCustomer_strategies_witness:
  "truthy (links_self_href linked_customer) \<and>
   updateCustomer (always 200 JsonNull) linked_customer [] =
     (Inr True, [put_request ''https://host/api/customers/7'' linked_customer]) \<and>
   \<not> truthy (links_self_href customer_linked_only) \<and>
   extractIdFromUrl (links_customer_href customer_linked_only) = Some ''9'' \<and>
   updateCustomer (always 200 JsonNull) customer_linked_only [] =
     (Inr True, [put_request (ENDPOINTS_customers @ ''/9'') customer_linked_only]) \<and>
   \<not> truthy (links_self_href bare_customer) \<and>
   extractIdFromUrl (links_customer_href bare_customer) = None \<and>
   find (matches bare_customer)
     (listed_customers (listing [api_anna (Some ''https://host/api/customers/3'')]) []) =
     Some (normalize_customer (api_anna (Some ''https://host/api/customers/3''))) \<and>
   updateCustomer (listing [api_anna (Some ''https://host/api/customers/3'')]) bare_customer [] =
     (Inr True, [list_request, put_request ''https://host/api/customers/3'' bare_customer]) \<and>
   \<not> truthy (matching_self_href (find (matches bare_customer) (listed_customers unreachable []))) \<and>
   updateCustomer unreachable bare_customer [] =
     (Inr False, [list_request, create_request bare_customer])"
  using updateCustomer_strategies [of linked_customer "always 200 JsonNull" "[]" "[]" bare_customer]
        updateCustomer_strategies [of customer_linked_only "always 200 JsonNull" "[]" "''9''"
                                      bare_customer]
        updateCustomer_strategies [of bare_customer
                                      "listing [api_anna (Some ''https://host/api/customers/3'')]"
                                      "[]" "[]"
                                      "normalize_customer (api_anna (Some ''https://host/api/customers/3''))"]
        updateCustomer_strategies [of bare_customer unreachable "[]" "[]" bare_customer]
  by (simp add: linked_customer_def customer_linked_only_def bare_customer_def
                links_self_href_def links_customer_href_def truthy_def extractIdFromUrl_def
                answered_ok_def answered_created_def always_def ok_def unreachable_def
                listed_customers_def listing_def embedded_array_def matches_def
                normalize_customer_def normalize_links_def href_or_empty_def api_anna_def
                matching_self_href_def)

text \<open>As stated, C3 fails at step (2): for a customer whose only identity is the
  numeric key 5 no PUT to the address synthesized from the key is issued; the collection
  is listed and the customer is POSTed as a new record.\<close>

theorem updateCustomer_counterexample:
  "customer_id keyed_customer = Some (Number ''5'') \<and>
   updateCustomer (always 201 JsonNull) keyed_customer [] =
     (Inr True, [list_request, create_request keyed_customer]) \<and>
   put_request (ENDPOINTS_customers @ ''/'' @ ''5'') keyed_customer \<notin>
     set (snd (updateCustomer (always 201 JsonNull) keyed_customer []))"
  by (simp add: updateCustomer_apply keyed_customer_def bare_customer_def
                links_self_href_def truthy_def getCustomerId_def links_customer_href_def
                listed_customers_def always_def ok_def embedded_array_def
                matching_self_href_def answered_created_def
                list_request_def create_request_def put_request_def)

section \<open>Lookup by discriminating attributes\<close>

text \<open>
  C4 (amended). Whenever \<^verbatim>\<open>findCustomerByData\<close> compares attributes, that is, when the
  resolver yields no identifier or the lookup by identifier fails (transport failure,
  status outside 200..299, body that is not JSON), it lists the customer collection
  and compares first name, last name and email. With no candidate the result is "not
  found" and a delete of an entity without a \<open>self\<close> address reports failure without a
  DELETE. With one or more candidates the result is the first candidate in the order of
  the collection (several candidates are not treated as "not found"); it agrees with
  the entity on all three attributes, and no customer listed before it does. The
  fallback update and the fallback delete of an entity without a \<open>self\<close> address then
  address exactly that first candidate's \<open>self\<close> address, when it is non-empty. When the
  lookup by identifier succeeds, its document is the result and no attributes are
  compared.
\<close>

theorem attribute_lookup_first_match:
  "((\<not> truthy (getCustomerId (Entity c)) \<and> pre = log \<or>
     getCustomerId (Entity c) = Some i \<and> id_lookup srv log i = None \<and>
       pre = log @ [id_request i]) \<longrightarrow>
     (filter (matches c) (listed_customers srv pre) = [] \<longrightarrow>
        findCustomerByData srv c log = (Inr JsonNull, pre @ [list_request]) \<and>
        (\<not> truthy (links_self_href c) \<longrightarrow>
           deleteCustomer srv (Entity c) log = (Inr False, pre @ [list_request]))) \<and>
     (filter (matches c) (listed_customers srv pre) = m # ms \<longrightarrow>
        findCustomerByData srv c log = (Inr (CustomerDoc m), pre @ [list_request]) \<and>
        firstname m = firstname c \<and> lastname m = lastname c \<and> email m = email c \<and>
        (\<exists>before after. listed_customers srv pre = before @ m # after \<and>
                         (\<forall>b \<in> set before. \<not> matches c b)) \<and>
        (\<not> truthy (links_self_href c) \<and> truthy (links_self_href m) \<longrightarrow>
           deleteCustomer srv (Entity c) log =
             (Inr (answered_ok srv (pre @ [list_request])
                     (delete_request (the (links_self_href m)))),
              pre @ [list_request, delete_request (the (links_self_href m))]) \<and>
           (\<not> truthy (getCustomerId (Entity c)) \<longrightarrow>
              updateCustomer srv c log =
                (Inr (answered_ok srv (log @ [list_request])
                        (put_request (the (links_self_href m)) c)),
                 log @ [list_request, put_request (the (links_self_href m)) c]))))) \<and>
   (getCustomerId (Entity c) = Some i \<and> id_lookup srv log i = Some d \<longrightarrow>
      findCustomerByData srv c log = (Inr d, log @ [id_request i]))"
proof (rule conjI, rule impI)
  assume runs: "\<not> truthy (getCustomerId (Entity c)) \<and> pre = log \<or>
    getCustomerId (Entity c) = Some i \<and> id_lookup srv log i = None \<and>
      pre = log @ [id_request i]"
  let ?found = "find (matches c) (listed_customers srv pre)"
  have lookup: "findCustomerByData srv c log = (Inr (as_document ?found), pre @ [list_request])"
    using runs by (auto simp: findCustomerByData_unresolved findCustomerByData_resolved)
  have none: "findCustomerByData srv c log = (Inr JsonNull, pre @ [list_request]) \<and>
        (\<not> truthy (links_self_href c) \<longrightarrow>
           deleteCustomer srv (Entity c) log = (Inr False, pre @ [list_request]))"
    if "filter (matches c) (listed_customers srv pre) = []"
  proof -
    from that have "?found = None" by (simp add: find_filter)
    then have doc: "findCustomerByData srv c log = (Inr JsonNull, pre @ [list_request])"
      using lookup by (simp add: as_document_def)
    show ?thesis
      using doc by (simp add: deleteCustomer_lookup [OF _ doc] document_self_href_def truthy_def)
  qed
  have some: "findCustomerByData srv c log = (Inr (CustomerDoc m), pre @ [list_request]) \<and>
        firstname m = firstname c \<and> lastname m = lastname c \<and> email m = email c \<and>
        (\<exists>before after. listed_customers srv pre = before @ m # after \<and>
                         (\<forall>b \<in> set before. \<not> matches c b)) \<and>
        (\<not> truthy (links_self_href c) \<and> truthy (links_self_href m) \<longrightarrow>
           deleteCustomer srv (Entity c) log =
             (Inr (answered_ok srv (pre @ [list_request])
                     (delete_request (the (links_self_href m)))),
              pre @ [list_request, delete_request (the (links_self_href m))]) \<and>
           (\<not> truthy (getCustomerId (Entity c)) \<longrightarrow>
              updateCustomer srv c log =
                (Inr (answered_ok srv (log @ [list_request])
                        (put_request (the (links_self_href m)) c)),
                 log @ [list_request, put_request (the (links_self_href m)) c])))"
    if first: "filter (matches c) (listed_customers srv pre) = m # ms"
  proof -
    from first have found: "?found = Some m" by (simp add: find_filter)
    then have doc: "findCustomerByData srv c log = (Inr (CustomerDoc m), pre @ [list_request])"
      using lookup by (simp add: as_document_def)
    have "m \<in> set (filter (matches c) (listed_customers srv pre))"
      using first by simp
    then have "matches c m" by simp
    then have same: "firstname m = firstname c" "lastname m = lastname c" "email m = email c"
      by (simp_all add: matches_def)
    have earlier: "\<exists>before after. listed_customers srv pre = before @ m # after \<and>
                        (\<forall>b \<in> set before. \<not> matches c b)"
      using first by (auto simp: filter_eq_Cons_iff)
    have delete: "deleteCustomer srv (Entity c) log =
             (Inr (answered_ok srv (pre @ [list_request])
                     (delete_request (the (links_self_href m)))),
              pre @ [list_request, delete_request (the (links_self_href m))])"
      if "\<not> truthy (links_self_href c)" "truthy (links_self_href m)"
      using that by (simp add: deleteCustomer_lookup [OF _ doc] document_self_href_def)
    have update: "updateCustomer srv c log =
                (Inr (answered_ok srv (log @ [list_request])
                        (put_request (the (links_self_href m)) c)),
                 log @ [list_request, put_request (the (links_self_href m)) c])"
      if "\<not> truthy (links_self_href c)" "truthy (links_self_href m)"
         "\<not> truthy (getCustomerId (Entity c))"
    proof -
      have "pre = log"
        using runs that(3) getCustomerId_truthy [of "Entity c"] by auto
      then show ?thesis
        using that found by (simp add: updateCustomer_apply matching_self_href_def)
    qed
    show ?thesis
      using doc same earlier delete update by blast
  qed
  show "(filter (matches c) (listed_customers srv pre) = [] \<longrightarrow>
        findCustomerByData srv c log = (Inr JsonNull, pre @ [list_request]) \<and>
        (\<not> truthy (links_self_href c) \<longrightarrow>
           deleteCustomer srv (Entity c) log = (Inr False, pre @ [list_request]))) \<and>
     (filter (matches c) (listed_customers srv pre) = m # ms \<longrightarrow>
        findCustomerByData srv c log = (Inr (CustomerDoc m), pre @ [list_request]) \<and>
        firstname m = firstname c \<and> lastname m = lastname c \<and> email m = email c \<and>
        (\<exists>before after. listed_customers srv pre = before @ m # after \<and>
                         (\<forall>b \<in> set before. \<not> matches c b)) \<and>
        (\<not> truthy (links_self_href c) \<and> truthy (links_self_href m) \<longrightarrow>
           deleteCustomer srv (Entity c) log =
             (Inr (answered_ok srv (pre @ [list_request])
                     (delete_request (the (links_self_href m)))),
              pre @ [list_request, delete_request (the (links_self_href m))]) \<and>
           (\<not> truthy (getCustomerId (Entity c)) \<longrightarrow>
              updateCustomer srv c log =
                (Inr (answered_ok srv (log @ [list_request])
                        (put_request (the (links_self_href m)) c)),
                 log @ [list_request, put_request (the (links_self_href m)) c]))))"
    using none some by blast
next
  show "getCustomerId (Entity c) = Some i \<and> id_lookup srv log i = Some d \<longrightarrow>
      findCustomerByData srv c log = (Inr d, log @ [id_request i])"
    by (simp add: findCustomerByData_resolved)
qed

theorem attribute_lookup_first_match_witness:
  "\<not> truthy (getCustomerId (Entity bare_customer)) \<and>
   filter (matches bare_customer) (listed_customers (listing []) []) = [] \<and>
   findCustomerByData (listing []) bare_customer [] = (Inr JsonNull, [list_request]) \<and>
   filter (matches bare_customer)
     (listed_customers (listing [api_anna (Some ''https://host/api/customers/1''),
                                 api_anna (Some ''https://host/api/customers/2'')]) []) =
     [normalize_customer (api_anna (Some ''https://host/api/customers/1'')),
      normalize_customer (api_anna (Some ''https://host/api/customers/2''))] \<and>
   \<not> truthy (links_self_href bare_customer) \<and>
   truthy (links_self_href (normalize_customer (api_anna (Some ''https://host/api/customers/1'')))) \<and>
   updateCustomer (listing [api_anna (Some ''https://host/api/customers/1''),
                            api_anna (Some ''https://host/api/customers/2'')]) bare_customer [] =
     (Inr True, [list_request, put_request ''https://host/api/customers/1'' bare_customer]) \<and>
   getCustomerId (Entity customer_linked_only) = Some ''9'' \<and>
   id_lookup (store [api_anna (Some ''https://host/api/customers/1''),
                     api_anna (Some ''https://host/api/customers/2'')]) [] ''9'' = None \<and>
   \<not> truthy (links_self_href customer_linked_only) \<and>
   findCustomerByData (store [api_anna (Some ''https://host/api/customers/1''),
                              api_anna (Some ''https://host/api/customers/2'')])
     customer_linked_only [] =
     (Inr (CustomerDoc (normalize_customer (api_anna (Some ''https://host/api/customers/1'')))),
      [id_request ''9'', list_request]) \<and>
   deleteCustomer (store [api_anna (Some ''https://host/api/customers/1''),
                          api_anna (Some ''https://host/api/customers/2'')])
     (Entity customer_linked_only) [] =
     (Inr True, [id_request ''9'', list_request, delete_request ''https://host/api/customers/1'']) \<and>
   id_lookup (always 200 (CustomerDoc linked_customer)) [] ''9'' = Some (CustomerDoc linked_customer) \<and>
   findCustomerByData (always 200 (CustomerDoc linked_customer)) customer_linked_only [] =
     (Inr (CustomerDoc linked_customer), [id_request ''9''])"
proof -
  let ?twins = "[api_anna (Some ''https://host/api/customers/1''),
                 api_anna (Some ''https://host/api/customers/2'')]"
  let ?first = "normalize_customer (api_anna (Some ''https://host/api/customers/1''))"
  let ?second = "normalize_customer (api_anna (Some ''https://host/api/customers/2''))"
  have unresolved: "\<not> truthy (getCustomerId (Entity bare_customer))"
    "\<not> truthy (links_self_href bare_customer)"
    by (simp_all add: bare_customer_def getCustomerId_def links_self_href_def
                      links_customer_href_def truthy_def)
  have resolved: "getCustomerId (Entity customer_linked_only) = Some ''9''"
    "\<not> truthy (links_self_href customer_linked_only)"
    by (simp_all add: customer_linked_only_def bare_customer_def getCustomerId_def
                      links_self_href_def links_customer_href_def truthy_def
                      extractIdFromUrl_def)
  have no_listing: "listed_customers (listing []) [] = []"
    by (simp add: listed_customers_def listing_def ok_def embedded_array_def)
  have listed: "listed_customers (listing ?twins) [] = [?first, ?second]"
    "listed_customers (store ?twins) [id_request ''9''] = [?first, ?second]"
    by (simp_all add: listed_customers_def listing_def store_def ok_def embedded_array_def
                      id_request_def delete_request_def)
  have both: "matches bare_customer ?first" "matches bare_customer ?second"
    "matches customer_linked_only ?first" "matches customer_linked_only ?second"
    by (simp_all add: matches_def normalize_customer_def api_anna_def bare_customer_def
                      customer_linked_only_def)
  have self: "links_self_href ?first = Some ''https://host/api/customers/1''"
    by (simp add: links_self_href_def normalize_customer_def normalize_links_def
                  href_or_empty_def api_anna_def)
  then have addressed: "truthy (links_self_href ?first)"
    by (simp add: truthy_def)
  have failed: "id_lookup (store ?twins) [] ''9'' = None"
    by (simp add: id_lookup_def store_def deleting_def id_request_def list_request_def ok_def)
  have succeeded: "id_lookup (always 200 (CustomerDoc linked_customer)) [] ''9'' =
      Some (CustomerDoc linked_customer)"
    by (simp add: id_lookup_def always_def ok_def)
  have answers: "answered_ok (listing ?twins) [list_request]
                   (put_request ''https://host/api/customers/1'' bare_customer)"
    "answered_ok (store ?twins) [id_request ''9'', list_request]
                   (delete_request ''https://host/api/customers/1'')"
    by (simp_all add: answered_ok_def listing_def store_def deleting_def ok_def
                      list_request_def put_request_def delete_request_def id_request_def)
  have no_candidate:
    "findCustomerByData (listing []) bare_customer [] = (Inr JsonNull, [list_request])"
    using unresolved no_listing
      attribute_lookup_first_match [of bare_customer "[]" "[]" "[]" "listing []" ?first "[]"
                                       JsonNull]
    by simp
  have two_candidates:
    "updateCustomer (listing ?twins) bare_customer [] =
       (Inr True, [list_request, put_request ''https://host/api/customers/1'' bare_customer])"
    using unresolved listed(1) both(1,2) self addressed answers(1)
      attribute_lookup_first_match [of bare_customer "[]" "[]" "[]" "listing ?twins" ?first
                                       "[?second]" JsonNull]
    by simp
  have after_failed_lookup:
    "findCustomerByData (store ?twins) customer_linked_only [] =
       (Inr (CustomerDoc ?first), [id_request ''9'', list_request])"
    "deleteCustomer (store ?twins) (Entity customer_linked_only) [] =
       (Inr True, [id_request ''9'', list_request,
                   delete_request ''https://host/api/customers/1''])"
    using resolved listed(2) both(3,4) self addressed failed answers(2)
      attribute_lookup_first_match [of customer_linked_only "[id_request ''9'']" "[]" "''9''"
                                       "store ?twins" ?first "[?second]" JsonNull]
    by simp_all
  have after_lookup:
    "findCustomerByData (always 200 (CustomerDoc linked_customer)) customer_linked_only [] =
       (Inr (CustomerDoc linked_customer), [id_request ''9''])"
    using resolved succeeded
      attribute_lookup_first_match [of customer_linked_only "[]" "[]" "''9''"
                                       "always 200 (CustomerDoc linked_customer)" ?first "[]"
                                       "CustomerDoc linked_customer"]
    by simp
  show ?thesis
    using unresolved resolved no_listing listed(1) both(1,2) addressed failed succeeded
      no_candidate two_candidates after_failed_lookup after_lookup
    by simp
qed

text \<open>As stated, C4 fails for several candidates: with two listed customers that both
  match, the lookup returns the first of them, and a delete of the entity removes the
  record at the first one's \<open>self\<close> address.\<close>

theorem attribute_lookup_counterexample:
  "length (filter (matches bare_customer)
     (listed_customers (listing [api_anna (Some ''https://host/api/customers/1''),
                                 api_anna (Some ''https://host/api/customers/2'')]) [])) = 2 \<and>
   findCustomerByData (listing [api_anna (Some ''https://host/api/customers/1''),
                                api_anna (Some ''https://host/api/customers/2'')]) bare_customer [] =
     (Inr (CustomerDoc (normalize_customer (api_anna (Some ''https://host/api/customers/1'')))),
      [list_request]) \<and>
   deleteCustomer (listing [api_anna (Some ''https://host/api/customers/1''),
                            api_anna (Some ''https://host/api/customers/2'')])
     (Entity bare_customer) [] =
     (Inr True, [list_request, delete_request ''https://host/api/customers/1''])"
  by (simp add: findCustomerByData_unresolved deleteCustomer_unresolved
                bare_customer_def getCustomerId_def
                links_self_href_def links_customer_href_def truthy_def
                answered_ok_def ok_def matching_self_href_def as_document_def
                listed_customers_def listing_def embedded_array_def matches_def
                normalize_customer_def normalize_links_def href_or_empty_def api_anna_def
                list_request_def delete_request_def)

section \<open>Creating\<close>

text \<open>
  C5 (amended). \<^verbatim>\<open>addTraining\<close> issues one POST to the training collection whose body
  keeps date, duration and activity and whose \<open>customer\<close> field is the caller's
  reference itself when that starts with \<open>http\<close>, and otherwise the customer collection
  address followed by \<open>/\<close> and the reference; in both cases the field starts with
  \<open>http\<close>. So the reference \<open>5\<close> becomes \<open><base>/customers/5\<close>, while \<open>customers/5\<close>
  becomes \<open><base>/customers/customers/5\<close>.
\<close>

theorem addTraining_customer_reference:
  "snd (addTraining srv t log) =
     log @ [create_training_request
              (t\<lparr>p_customer := (if startsWith (p_customer t) ''http'' then p_customer t
                                 else ENDPOINTS_customers @ ''/'' @ p_customer t)\<rparr>)] \<and>
   startsWith (if startsWith (p_customer t) ''http'' then p_customer t
               else ENDPOINTS_customers @ ''/'' @ p_customer t) ''http''"
proof -
  have "startsWith (ENDPOINTS_customers @ ''/'' @ p_customer t) ''http''"
    by (simp add: startsWith_def ENDPOINTS_customers_def API_BASE_URL_def)
  then show ?thesis
    by (simp add: addTraining_apply trainingPayload_update)
qed

theorem addTraining_customer_reference_witness:
  "snd (addTraining unreachable (yoga\<lparr>p_customer := ''5''\<rparr>) []) =
     [create_training_request (yoga\<lparr>p_customer := API_BASE_URL @ ''/customers/5''\<rparr>)] \<and>
   snd (addTraining unreachable (yoga\<lparr>p_customer := ''https://host/api/customers/5''\<rparr>) []) =
     [create_training_request (yoga\<lparr>p_customer := ''https://host/api/customers/5''\<rparr>)]"
  using addTraining_customer_reference [of unreachable "yoga\<lparr>p_customer := ''5''\<rparr>" "[]"]
        addTraining_customer_reference
          [of unreachable "yoga\<lparr>p_customer := ''https://host/api/customers/5''\<rparr>" "[]"]
  by (simp add: yoga_def startsWith_def ENDPOINTS_customers_def)

text \<open>As stated, C5 fails in its scenario: for the reference \<open>customers/5\<close> the body's
  customer field is \<open><base>/customers/customers/5\<close>, not \<open><base>/customers/5\<close>.\<close>

theorem addTraining_customer_reference_counterexample:
  "p_customer yoga = ''customers/5'' \<and>
   snd (addTraining (always 201 JsonNull) yoga []) =
     [create_training_request (yoga\<lparr>p_customer := API_BASE_URL @ ''/customers/customers/5''\<rparr>)] \<and>
   API_BASE_URL @ ''/customers/customers/5'' \<noteq> API_BASE_URL @ ''/customers/5''"
  by (simp add: addTraining_apply trainingPayload_def Let_def startsWith_def yoga_def
                ENDPOINTS_customers_def)

text \<open>
  C6 (amended). Both create operations end with a boolean. \<^verbatim>\<open>addCustomer\<close> reports
  success if and only if the backend answers with status 201; \<^verbatim>\<open>addTraining\<close> reports
  success if and only if the backend answers with a status in 200..299. A transport
  failure is reported as failure by both.
\<close>

theorem create_success:
  "(fst (addCustomer srv c log) = Inr True \<or> fst (addCustomer srv c log) = Inr False) \<and>
   (fst (addCustomer srv c log) = Inr True) =
     (\<exists>r. srv log (create_request c) = Responds r \<and> status r = 201) \<and>
   (fst (addTraining srv t log) = Inr True \<or> fst (addTraining srv t log) = Inr False) \<and>
   (fst (addTraining srv t log) = Inr True) =
     (\<exists>r. srv log (create_training_request (trainingPayload t)) = Responds r \<and>
          200 \<le> status r \<and> status r \<le> 299)"
  by (auto simp: addCustomer_apply addTraining_apply answered_created_def answered_ok_def
                 ok_def split: outcome.splits)

theorem create_success_witness:
  "fst (addCustomer (always 201 JsonNull) bare_customer []) = Inr True \<and>
   fst (addCustomer (always 200 JsonNull) bare_customer []) = Inr False \<and>
   fst (addTraining (always 204 JsonNull) yoga []) = Inr True \<and>
   fst (addTraining (always 404 JsonNull) yoga []) = Inr False \<and>
   fst (addTraining unreachable yoga []) = Inr False"
  using create_success [of "always 201 JsonNull" bare_customer "[]" yoga]
        create_success [of "always 200 JsonNull" bare_customer "[]" yoga]
        create_success [of "always 204 JsonNull" bare_customer "[]" yoga]
        create_success [of "always 404 JsonNull" bare_customer "[]" yoga]
        create_success [of unreachable bare_customer "[]" yoga]
  by (auto simp: always_def unreachable_def)

text \<open>As stated, C6 fails for trainings: \<^verbatim>\<open>addTraining\<close> reports success on the
  statuses 200 and 204.\<close>

theorem create_success_counterexample:
  "fst (addTraining (always 200 JsonNull) yoga []) = Inr True \<and>
   fst (addTraining (always 204 JsonNull) yoga []) = Inr True"
  by (simp add: addTraining_apply answered_ok_def always_def ok_def)

section \<open>Failure containment\<close>

text \<open>
  C7 (amended). No operation of the client ends with an exception: for every backend,
  every input and every request history, each of \<^verbatim>\<open>getCustomers\<close>, \<^verbatim>\<open>addCustomer\<close>,
  \<^verbatim>\<open>findCustomerByData\<close>, \<^verbatim>\<open>updateCustomer\<close>, \<^verbatim>\<open>deleteCustomer\<close>, \<^verbatim>\<open>getTrainings\<close>,
  \<^verbatim>\<open>addTraining\<close>, \<^verbatim>\<open>updateTraining\<close>, \<^verbatim>\<open>deleteTraining\<close> and \<^verbatim>\<open>resetDatabase\<close> is
  fulfilled with a value. When the backend answers no request with a status in 200..299
  (transport errors included), the list operations yield the empty collection and the
  mutations yield false; and for every backend a mutation reports true, and a list
  operation yields something other than the empty collection, only if the backend
  answered the last request of the operation with a status in 200..299. A second delete
  of the same training, or of the same customer addressed by a string or by its \<open>self\<close>
  address, reports false whenever the backend does not answer the repeated DELETE with
  success, and a delete of a training that cannot be addressed reports false both
  times. A second delete of a customer without a \<open>self\<close> address looks the customer up
  anew: it reports false when the lookup finds no document with a non-empty \<open>self\<close>
  address, and otherwise sends a DELETE to the address found now and reports its outcome
  (so when another record with the same attributes is listed, that record is deleted
  and true is reported).
\<close>

theorem crud_never_throws:
  "(\<exists>v. fst (getCustomers srv log) = Inr v) \<and>
   (\<exists>v. fst (addCustomer srv c log) = Inr v) \<and>
   (\<exists>v. fst (findCustomerByData srv c log) = Inr v) \<and>
   (\<exists>v. fst (updateCustomer srv c log) = Inr v) \<and>
   (\<exists>v. fst (deleteCustomer srv x log) = Inr v) \<and>
   (\<exists>v. fst (getTrainings srv log) = Inr v) \<and>
   (\<exists>v. fst (addTraining srv p log) = Inr v) \<and>
   (\<exists>v. fst (updateTraining srv i p log) = Inr v) \<and>
   (\<exists>v. fst (deleteTraining srv y log) = Inr v) \<and>
   (\<exists>v. fst (resetDatabase srv log) = Inr v) \<and>
   (unavailable srv \<longrightarrow>
      fst (getCustomers srv log) = Inr [] \<and>
      fst (addCustomer srv c log) = Inr False \<and>
      fst (updateCustomer srv c log) = Inr False \<and>
      fst (deleteCustomer srv x log) = Inr False \<and>
      fst (getTrainings srv log) = Inr (TrainingsDoc []) \<and>
      fst (addTraining srv p log) = Inr False \<and>
      fst (updateTraining srv i p log) = Inr False \<and>
      fst (deleteTraining srv y log) = Inr False \<and>
      fst (resetDatabase srv log) = Inr False) \<and>
   (fst (getCustomers srv log) \<noteq> Inr [] \<longrightarrow>
      last_answered_ok srv (snd (getCustomers srv log))) \<and>
   (fst (addCustomer srv c log) = Inr True \<longrightarrow>
      last_answered_ok srv (snd (addCustomer srv c log))) \<and>
   (fst (updateCustomer srv c log) = Inr True \<longrightarrow>
      last_answered_ok srv (snd (updateCustomer srv c log))) \<and>
   (fst (deleteCustomer srv x log) = Inr True \<longrightarrow>
      last_answered_ok srv (snd (deleteCustomer srv x log))) \<and>
   (fst (getTrainings srv log) \<noteq> Inr (TrainingsDoc []) \<longrightarrow>
      last_answered_ok srv (snd (getTrainings srv log))) \<and>
   (fst (addTraining srv p log) = Inr True \<longrightarrow>
      last_answered_ok srv (snd (addTraining srv p log))) \<and>
   (fst (updateTraining srv i p log) = Inr True \<longrightarrow>
      last_answered_ok srv (snd (updateTraining srv i p log))) \<and>
   (fst (deleteTraining srv y log) = Inr True \<longrightarrow>
      last_answered_ok srv (snd (deleteTraining srv y log))) \<and>
   (fst (resetDatabase srv log) = Inr True \<longrightarrow>
      last_answered_ok srv (snd (resetDatabase srv log))) \<and>
   (deleteUrl y = None \<or>
    (\<exists>u. deleteUrl y = Some u \<and>
         \<not> answered_ok srv (log @ [delete_request u]) (delete_request u)) \<longrightarrow>
      fst (deleteTraining srv y (snd (deleteTraining srv y log))) = Inr False) \<and>
   (\<not> answered_ok srv (log @ [delete_request (customer_address s)])
                      (delete_request (customer_address s)) \<longrightarrow>
      fst (deleteCustomer srv (Address s) (snd (deleteCustomer srv (Address s) log))) =
        Inr False) \<and>
   (truthy (links_self_href e) \<and>
    \<not> answered_ok srv (log @ [delete_request (the (links_self_href e))])
                      (delete_request (the (links_self_href e))) \<longrightarrow>
      fst (deleteCustomer srv (Entity e) (snd (deleteCustomer srv (Entity e) log))) = Inr False) \<and>
   (\<not> truthy (links_self_href e) \<and>
    findCustomerByData srv e (snd (deleteCustomer srv (Entity e) log)) = (Inr d, log') \<longrightarrow>
      deleteCustomer srv (Entity e) (snd (deleteCustomer srv (Entity e) log)) =
        (if truthy (document_self_href d)
         then (Inr (answered_ok srv log' (delete_request (the (document_self_href d)))),
               log' @ [delete_request (the (document_self_href d))])
         else (Inr False, log')))"
proof -
  have fulfilled: "\<exists>v. fst (io_try m (\<lambda>error. io_return fallback) log) = Inr v"
    for m :: "'r io" and fallback
    using io_try_fulfilled [of m fallback log] by auto
  have never:
    "\<exists>v. fst (getCustomers srv log) = Inr v"
    "\<exists>v. fst (addCustomer srv c log) = Inr v"
    "\<exists>v. fst (findCustomerByData srv c log) = Inr v"
    "\<exists>v. fst (updateCustomer srv c log) = Inr v"
    "\<exists>v. fst (deleteCustomer srv x log) = Inr v"
    "\<exists>v. fst (getTrainings srv log) = Inr v"
    "\<exists>v. fst (addTraining srv p log) = Inr v"
    "\<exists>v. fst (updateTraining srv i p log) = Inr v"
    "\<exists>v. fst (deleteTraining srv y log) = Inr v"
    "\<exists>v. fst (resetDatabase srv log) = Inr v"
    unfolding getCustomers_def addCustomer_def findCustomerByData_def updateCustomer_def
      deleteCustomer_def getTrainings_def addTraining_def updateTraining_def
      deleteTraining_def resetDatabase_def
    by (rule fulfilled)+
  have down: "fst (getCustomers srv log) = Inr []"
      "fst (addCustomer srv c log) = Inr False"
      "fst (updateCustomer srv c log) = Inr False"
      "fst (deleteCustomer srv x log) = Inr False"
      "fst (getTrainings srv log) = Inr (TrainingsDoc [])"
      "fst (addTraining srv p log) = Inr False"
      "fst (updateTraining srv i p log) = Inr False"
      "fst (deleteTraining srv y log) = Inr False"
      "fst (resetDatabase srv log) = Inr False"
    if "unavailable srv"
    using that
    by (simp_all add: getCustomers_apply unavailable_listed addCustomer_apply
                      unavailable_created updateCustomer_unavailable
                      deleteCustomer_unavailable getTrainings_unavailable addTraining_apply
                      unavailable_ok updateTraining_def resetDatabase_def mutation_apply
                      deleteTraining_apply split: option.splits)
  note success = getCustomers_success updateCustomer_success deleteCustomer_success
    getTrainings_success training_mutations_success
  have again: "fst (deleteTraining srv y (snd (deleteTraining srv y log))) = Inr False"
    if "deleteUrl y = None \<or>
        (\<exists>u. deleteUrl y = Some u \<and>
             \<not> answered_ok srv (log @ [delete_request u]) (delete_request u))"
    using that by (auto simp: deleteTraining_apply)
  have again_address:
    "fst (deleteCustomer srv (Address s) (snd (deleteCustomer srv (Address s) log))) = Inr False"
    if "\<not> answered_ok srv (log @ [delete_request (customer_address s)])
                           (delete_request (customer_address s))"
    using that by (simp add: deleteCustomer_address)
  have again_self:
    "fst (deleteCustomer srv (Entity e) (snd (deleteCustomer srv (Entity e) log))) = Inr False"
    if "truthy (links_self_href e) \<and>
        \<not> answered_ok srv (log @ [delete_request (the (links_self_href e))])
                          (delete_request (the (links_self_href e)))"
    using that by (simp add: deleteCustomer_self)
  have again_lookup:
    "deleteCustomer srv (Entity e) (snd (deleteCustomer srv (Entity e) log)) =
        (if truthy (document_self_href d)
         then (Inr (answered_ok srv log' (delete_request (the (document_self_href d)))),
               log' @ [delete_request (the (document_self_href d))])
         else (Inr False, log'))"
    if "\<not> truthy (links_self_href e) \<and>
        findCustomerByData srv e (snd (deleteCustomer srv (Entity e) log)) = (Inr d, log')"
    using that deleteCustomer_lookup [of e srv "snd (deleteCustomer srv (Entity e) log)" d log']
    by simp
  show ?thesis
    by (intro conjI impI never down success again again_address again_self again_lookup)
       simp_all
qed

theorem crud_never_throws_witness:
  "unavailable unreachable \<and>
   fst (getCustomers unreachable []) = Inr [] \<and>
   fst (updateCustomer unreachable bare_customer []) = Inr False \<and>
   fst (deleteCustomer unreachable (Entity customer_linked_only) []) = Inr False \<and>
   fst (getTrainings unreachable []) = Inr (TrainingsDoc []) \<and>
   unavailable (always 404 (NotJson [])) \<and>
   fst (getCustomers (always 404 (NotJson [])) []) = Inr [] \<and>
   fst (updateCustomer (always 404 (NotJson [])) linked_customer []) = Inr False \<and>
   fst (deleteCustomer (always 404 (NotJson [])) (Entity customer_linked_only) []) = Inr False \<and>
   deleteUrl (TrainingAddress ''7'' :: customer training_or_string) =
     Some (ENDPOINTS_trainings @ ''/7'') \<and>
   \<not> answered_ok deleting ([] @ [delete_request (ENDPOINTS_trainings @ ''/7'')])
                        (delete_request (ENDPOINTS_trainings @ ''/7'')) \<and>
   fst (deleteTraining deleting (TrainingAddress ''7'' :: customer training_or_string) []) =
     Inr True \<and>
   last_answered_ok deleting
     (snd (deleteTraining deleting (TrainingAddress ''7'' :: customer training_or_string) [])) \<and>
   fst (deleteTraining deleting (TrainingAddress ''7'' :: customer training_or_string)
          (snd (deleteTraining deleting
                  (TrainingAddress ''7'' :: customer training_or_string) []))) = Inr False \<and>
   fst (deleteCustomer deleting (Address ''7'') []) = Inr True \<and>
   fst (deleteCustomer deleting (Address ''7'')
          (snd (deleteCustomer deleting (Address ''7'') []))) = Inr False \<and>
   truthy (links_self_href linked_customer) \<and>
   fst (deleteCustomer deleting (Entity linked_customer) []) = Inr True \<and>
   fst (deleteCustomer deleting (Entity linked_customer)
          (snd (deleteCustomer deleting (Entity linked_customer) []))) = Inr False \<and>
   \<not> truthy (links_self_href bare_customer) \<and>
   deleteCustomer (store [api_anna (Some ''https://host/api/customers/1'')])
     (Entity bare_customer) [] =
     (Inr True, [list_request, delete_request ''https://host/api/customers/1'']) \<and>
   findCustomerByData (store [api_anna (Some ''https://host/api/customers/1'')]) bare_customer
     [list_request, delete_request ''https://host/api/customers/1''] =
     (Inr JsonNull, [list_request, delete_request ''https://host/api/customers/1'',
                     list_request]) \<and>
   deleteCustomer (store [api_anna (Some ''https://host/api/customers/1'')])
     (Entity bare_customer) [list_request, delete_request ''https://host/api/customers/1''] =
     (Inr False, [list_request, delete_request ''https://host/api/customers/1'', list_request])"
proof -
  let ?y = "TrainingAddress ''7'' :: customer training_or_string"
  let ?one = "store [api_anna (Some ''https://host/api/customers/1'')]"
  let ?log1 = "[list_request, delete_request ''https://host/api/customers/1'']"
  have down: "unavailable unreachable"
    by (simp add: unavailable_def answered_ok_def unreachable_def)
  have refused: "unavailable (always 404 (NotJson []))"
    by (simp add: unavailable_def answered_ok_def always_def ok_def)
  have url: "deleteUrl ?y = Some (ENDPOINTS_trainings @ ''/7'')"
    by (simp add: deleteUrl_def startsWith_def)
  have address: "customer_address ''7'' = ENDPOINTS_customers @ ''/7''"
    by (simp add: customer_address_def startsWith_def)
  have repeated: "\<not> answered_ok deleting ([] @ [delete_request u]) (delete_request u)" for u
    by (simp add: answered_ok_def deleting_def delete_request_def ok_def)
  have first: "answered_ok deleting [] (delete_request u)" for u
    by (simp add: answered_ok_def deleting_def delete_request_def ok_def)
  have self: "truthy (links_self_href linked_customer)"
    by (simp add: linked_customer_def bare_customer_def links_self_href_def truthy_def)
  have bare: "\<not> truthy (links_self_href bare_customer)"
    "\<not> truthy (getCustomerId (Entity bare_customer))"
    by (simp_all add: bare_customer_def getCustomerId_def links_self_href_def
                      links_customer_href_def truthy_def)
  have listed: "listed_customers ?one [] =
      [normalize_customer (api_anna (Some ''https://host/api/customers/1''))]"
    "listed_customers ?one ?log1 = []"
    by (simp_all add: listed_customers_def store_def ok_def embedded_array_def
                      backend_href_def or_empty_def api_anna_def)
  have matching: "matches bare_customer
      (normalize_customer (api_anna (Some ''https://host/api/customers/1'')))"
    by (simp add: matches_def normalize_customer_def api_anna_def bare_customer_def)
  have there: "links_self_href (normalize_customer (api_anna (Some ''https://host/api/customers/1'')))
      = Some ''https://host/api/customers/1''"
    by (simp add: links_self_href_def normalize_customer_def normalize_links_def
                  href_or_empty_def api_anna_def)
  have deleted: "answered_ok ?one [list_request] (delete_request ''https://host/api/customers/1'')"
    by (simp add: answered_ok_def store_def deleting_def ok_def list_request_def
                  delete_request_def)
  have once: "deleteCustomer ?one (Entity bare_customer) [] = (Inr True, ?log1)"
    using bare listed(1) matching there deleted
    by (simp add: deleteCustomer_unresolved matching_self_href_def truthy_def)
  have gone: "findCustomerByData ?one bare_customer ?log1 =
      (Inr JsonNull, ?log1 @ [list_request])"
    using bare listed(2) by (simp add: findCustomerByData_unresolved as_document_def)
  have twice: "deleteCustomer ?one (Entity bare_customer) ?log1 =
      (Inr False, ?log1 @ [list_request])"
    using bare once gone
      crud_never_throws [where srv = ?one and log = "[]" and c = bare_customer
                           and x = "Entity bare_customer" and y = ?y and e = bare_customer
                           and s = "''7''" and d = JsonNull
                           and log' = "?log1 @ [list_request]"]
    by (simp add: document_self_href_def truthy_def)
  show ?thesis
    using down refused url address repeated first self bare once gone twice
      crud_never_throws [where srv = unreachable and log = "[]" and c = bare_customer
                           and x = "Entity customer_linked_only"
                           and y = ?y and e = linked_customer and s = "''7''"]
      crud_never_throws [where srv = "always 404 (NotJson [])" and log = "[]"
                           and c = linked_customer
                           and x = "Entity customer_linked_only"
                           and y = ?y and e = linked_customer and s = "''7''"]
      crud_never_throws [where srv = deleting and log = "[]" and c = bare_customer
                           and x = "Entity customer_linked_only"
                           and y = ?y and e = linked_customer and s = "''7''"]
    by (simp add: deleteTraining_apply deleteCustomer_self deleteCustomer_address)
qed

text \<open>As stated, C7 fails in its second-delete part: the backend holds two customers
  with the same first name, last name and email and answers 404 to a repeated DELETE;
  the second delete of an entity without links finds the other record, deletes it and
  reports true.\<close>

theorem crud_second_delete_counterexample:
  "deleteCustomer (store [api_anna (Some ''https://host/api/customers/1''),
                          api_anna (Some ''https://host/api/customers/2'')])
     (Entity bare_customer) [] =
     (Inr True, [list_request, delete_request ''https://host/api/customers/1'']) \<and>
   \<not> answered_ok (store [api_anna (Some ''https://host/api/customers/1''),
                         api_anna (Some ''https://host/api/customers/2'')])
       [list_request, delete_request ''https://host/api/customers/1'']
       (delete_request ''https://host/api/customers/1'') \<and>
   deleteCustomer (store [api_anna (Some ''https://host/api/customers/1''),
                          api_anna (Some ''https://host/api/customers/2'')])
     (Entity bare_customer) [list_request, delete_request ''https://host/api/customers/1''] =
     (Inr True, [list_request, delete_request ''https://host/api/customers/1'',
                 list_request, delete_request ''https://host/api/customers/2''])"
proof -
  let ?two = "store [api_anna (Some ''https://host/api/customers/1''),
                     api_anna (Some ''https://host/api/customers/2'')]"
  let ?log1 = "[list_request, delete_request ''https://host/api/customers/1'']"
  have bare: "\<not> truthy (links_self_href bare_customer)"
    "\<not> truthy (getCustomerId (Entity bare_customer))"
    by (simp_all add: bare_customer_def getCustomerId_def links_self_href_def
                      links_customer_href_def truthy_def)
  have listed: "listed_customers ?two [] =
      [normalize_customer (api_anna (Some ''https://host/api/customers/1'')),
       normalize_customer (api_anna (Some ''https://host/api/customers/2''))]"
    "listed_customers ?two ?log1 =
      [normalize_customer (api_anna (Some ''https://host/api/customers/2''))]"
    by (simp_all add: listed_customers_def store_def ok_def embedded_array_def
                      backend_href_def or_empty_def api_anna_def delete_request_def
                      list_request_def)
  have matching: "matches bare_customer (normalize_customer (api_anna a))" for a
    by (simp add: matches_def normalize_customer_def api_anna_def bare_customer_def)
  have there: "links_self_href (normalize_customer (api_anna (Some a))) = Some a" for a
    by (simp add: links_self_href_def normalize_customer_def normalize_links_def
                  href_or_empty_def api_anna_def)
  have answers:
    "answered_ok ?two [list_request] (delete_request ''https://host/api/customers/1'')"
    "\<not> answered_ok ?two ?log1 (delete_request ''https://host/api/customers/1'')"
    "answered_ok ?two (?log1 @ [list_request]) (delete_request ''https://host/api/customers/2'')"
    by (simp_all add: answered_ok_def store_def deleting_def ok_def list_request_def
                      delete_request_def)
  show ?thesis
    using bare listed matching there answers
    by (simp add: deleteCustomer_unresolved matching_self_href_def truthy_def)
qed

section \<open>Collection normalization\<close>

text \<open>
  C8. \<^verbatim>\<open>getCustomers\<close> applied to a successfully delivered payload that has no
  embedded collection array (the payload is null, has no \<open>_embedded\<close> member, or its
  \<open>_embedded\<close> has no \<open>customers\<close> member) returns the empty sequence, not an error.
\<close>

theorem getCustomers_no_embedded_array:
  "srv log list_request = Responds r \<and> ok r \<and>
   (json r = JsonNull \<or>
    json r = CustomersDoc (CustomerResponse None) \<or>
    json r = CustomersDoc (CustomerResponse (Some (Embedded None)))) \<longrightarrow>
     getCustomers srv log = (Inr [], log @ [list_request])"
  by (auto simp: getCustomers_apply listed_customers_def embedded_array_def)

theorem getCustomers_no_embedded_array_witness:
  "always 200 (CustomersDoc (CustomerResponse None)) [] list_request =
     Responds \<lparr> status = 200, json = CustomersDoc (CustomerResponse None) \<rparr> \<and>
   ok \<lparr> status = 200, json = CustomersDoc (CustomerResponse None) \<rparr> \<and>
   getCustomers (always 200 (CustomersDoc (CustomerResponse None))) [] = (Inr [], [list_request]) \<and>
   getCustomers (always 200 (CustomersDoc (CustomerResponse (Some (Embedded None))))) [] =
     (Inr [], [list_request]) \<and>
   getCustomers (always 200 JsonNull) [] = (Inr [], [list_request])"
  using getCustomers_no_embedded_array
          [of "always 200 (CustomersDoc (CustomerResponse None))" "[]"
              "\<lparr> status = 200, json = CustomersDoc (CustomerResponse None) \<rparr>"]
        getCustomers_no_embedded_array
          [of "always 200 (CustomersDoc (CustomerResponse (Some (Embedded None))))" "[]"
              "\<lparr> status = 200, json = CustomersDoc (CustomerResponse (Some (Embedded None))) \<rparr>"]
        getCustomers_no_embedded_array
          [of "always 200 JsonNull" "[]" "\<lparr> status = 200, json = JsonNull \<rparr>"]
  by (simp add: always_def ok_def)

text \<open>
  C9 (amended). Every customer produced by the normalization in \<^verbatim>\<open>getCustomers\<close>
  carries a \<open>links\<close> member with all three relation-address fields \<open>self\<close>, \<open>customer\<close>
  and \<open>trainings\<close>. For a payload with an embedded array the result has one customer per
  element, in order, and each field holds the backend's address for that relation, or
  the empty string when the backend's \<open>_links\<close>, the relation key or its \<open>href\<close> is
  absent. \<^verbatim>\<open>getTrainings\<close> normalizes nothing: it returns the delivered array as it is,
  so a training has the relation addresses the backend gave it, or none.
\<close>

theorem normalized_links_present:
  "(fst (getCustomers srv log) = Inr cs \<and> c \<in> set cs \<longrightarrow>
      (\<exists>s k t. customer_links c = Some \<lparr> c_self = Link s, c_customer = Link k,
                                         c_trainings = Link t \<rparr>)) \<and>
   (srv log list_request = Responds r \<and> ok r \<and>
    json r = CustomersDoc (CustomerResponse (Some (Embedded (Some as)))) \<longrightarrow>
      (\<exists>ns. getCustomers srv log = (Inr ns, log @ [list_request]) \<and>
            length ns = length as \<and>
            (\<forall>n < length as.
               customer_links (ns ! n) =
                 Some \<lparr> c_self = Link (or_empty (backend_href (as ! n) api_self)),
                        c_customer = Link (or_empty (backend_href (as ! n) api_customer)),
                        c_trainings = Link (or_empty (backend_href (as ! n) api_trainings)) \<rparr>))) \<and>
   (srv log (get_request ENDPOINTS_getTrainings) = Responds r' \<and> ok r' \<and>
    json r' = TrainingsDoc ts \<longrightarrow>
      getTrainings srv log = (Inr (TrainingsDoc ts), log @ [get_request ENDPOINTS_getTrainings]))"
proof -
  have present: "\<exists>s k t. customer_links c = Some \<lparr> c_self = Link s, c_customer = Link k,
                                                   c_trainings = Link t \<rparr>"
    if "fst (getCustomers srv log) = Inr cs \<and> c \<in> set cs"
  proof -
    from that have "c \<in> set (listed_customers srv log)"
      by (simp add: getCustomers_apply)
    then obtain a where "c = normalize_customer a"
      using listed_customers_normalized by blast
    then show ?thesis
      by (simp add: normalize_customer_links)
  qed
  have placeholders: "\<exists>ns. getCustomers srv log = (Inr ns, log @ [list_request]) \<and>
            length ns = length as \<and>
            (\<forall>n < length as.
               customer_links (ns ! n) =
                 Some \<lparr> c_self = Link (or_empty (backend_href (as ! n) api_self)),
                        c_customer = Link (or_empty (backend_href (as ! n) api_customer)),
                        c_trainings = Link (or_empty (backend_href (as ! n) api_trainings)) \<rparr>)"
    if "srv log list_request = Responds r \<and> ok r \<and>
        json r = CustomersDoc (CustomerResponse (Some (Embedded (Some as))))"
  proof -
    from that have "listed_customers srv log = map normalize_customer as"
      by (simp add: listed_customers_def embedded_array_def)
    then show ?thesis
      by (simp add: getCustomers_apply normalize_customer_links)
  qed
  have as_delivered:
    "getTrainings srv log = (Inr (TrainingsDoc ts), log @ [get_request ENDPOINTS_getTrainings])"
    if "srv log (get_request ENDPOINTS_getTrainings) = Responds r' \<and> ok r' \<and>
        json r' = TrainingsDoc ts"
    using that
    by (simp add: getTrainings_def io_try_def io_bind_def fetch_def get_request_def
                  response_json_def io_return_def)
  show ?thesis
    using present placeholders as_delivered by blast
qed

theorem normalized_links_present_witness:
  "fst (getCustomers (listing [api_anna None]) []) = Inr [normalize_customer (api_anna None)] \<and>
   normalize_customer (api_anna None) \<in> set [normalize_customer (api_anna None)] \<and>
   listing [api_anna None] [] list_request =
     Responds \<lparr> status = 200,
                json = CustomersDoc (CustomerResponse (Some (Embedded (Some [api_anna None])))) \<rparr> \<and>
   ok \<lparr> status = 200,
        json = CustomersDoc (CustomerResponse (Some (Embedded (Some [api_anna None])))) \<rparr> \<and>
   backend_href (api_anna None) api_self = None \<and>
   backend_href (api_anna None) api_customer = None \<and>
   backend_href (api_anna None) api_trainings = None \<and>
   customer_links (normalize_customer (api_anna None)) =
     Some \<lparr> c_self = Link [], c_customer = Link [], c_trainings = Link [] \<rparr> \<and>
   always 200 (TrainingsDoc [bare_training]) [] (get_request ENDPOINTS_getTrainings) =
     Responds \<lparr> status = 200, json = TrainingsDoc [bare_training] \<rparr> \<and>
   ok \<lparr> status = 200, json = TrainingsDoc [bare_training] \<rparr> \<and>
   getTrainings (always 200 (TrainingsDoc [bare_training])) [] =
     (Inr (TrainingsDoc [bare_training]), [get_request ENDPOINTS_getTrainings])"
proof -
  have listed: "getCustomers (listing [api_anna None]) [] =
      (Inr [normalize_customer (api_anna None)], [list_request])"
    by (simp add: getCustomers_apply listed_customers_def listing_def ok_def embedded_array_def)
  have absent: "backend_href (api_anna None) api_self = None"
    "backend_href (api_anna None) api_customer = None"
    "backend_href (api_anna None) api_trainings = None"
    by (simp_all add: backend_href_def api_anna_def)
  show ?thesis
    using listed absent
      normalized_links_present
          [of "listing [api_anna None]" "[]" "[normalize_customer (api_anna None)]"
              "normalize_customer (api_anna None)"
              "\<lparr> status = 200,
                 json = CustomersDoc (CustomerResponse (Some (Embedded (Some [api_anna None])))) \<rparr>"
              "[api_anna None]"]
      normalized_links_present
          [where srv = "always 200 (TrainingsDoc [bare_training])" and log = "[]"
             and r' = "\<lparr> status = 200, json = TrainingsDoc [bare_training] \<rparr>"
             and ts = "[bare_training]"]
    by (simp add: listing_def always_def ok_def or_empty_def)
qed

text \<open>As stated, C9 fails for trainings: a training delivered without a \<open>links\<close> member
  is returned by \<^verbatim>\<open>getTrainings\<close> without one.\<close>

theorem getTrainings_counterexample:
  "training_links (bare_training :: customer training) = None \<and>
   getTrainings (always 200 (TrainingsDoc [bare_training])) [] =
     (Inr (TrainingsDoc [bare_training]), [get_request ENDPOINTS_getTrainings])"
  by (simp add: bare_training_def getTrainings_def io_try_def io_bind_def fetch_def
                get_request_def response_json_def io_return_def always_def ok_def)

section \<open>Merging a lazily fetched customer\<close>

text \<open>
  C10 (the code departs from the claim). The state holds two trainings with links and
  without customer, the grid evaluates the Customer column for the first, and the
  backend delivers the customer. The getter calls the first render's closure, whose
  collection is the initial empty one, so the load ends with the empty list as the new
  state: both trainings are lost, where the claim has the first one receive the
  customer and the second one stay unchanged. Applied to the current collection, the
  same closure does what the claim says.
\<close>

theorem lazy_load_replaces_collection:
  "customer_column (always 200 (CustomerDoc bare_customer))
     [linked_training ''t/1'', linked_training ''t/2''] (linked_training ''t/1'') [] =
     (Inr (''Loading...'', []), [get_request ''https://host/api/customers/7'']) \<and>
   fetchCustomerForTraining (always 200 (CustomerDoc bare_customer))
     [linked_training ''t/1'', linked_training ''t/2''] (linked_training ''t/1'') [] =
     (Inr (Some [(linked_training ''t/1'')\<lparr>training_customer := Some (CustomerDoc bare_customer)\<rparr>,
                 linked_training ''t/2'']),
      [get_request ''https://host/api/customers/7''])"
proof -
  let ?srv = "always 200 (CustomerDoc bare_customer)"
  let ?links = "\<lparr> t_self = Link ''t/1'', t_training = Link ''t/1'',
                  t_customer = Link ''https://host/api/customers/7'' \<rparr>"
  let ?r = "\<lparr> status = 200, json = CustomerDoc bare_customer \<rparr>"
  have row: "training_links (linked_training ''t/1'' :: loaded_training) = Some ?links"
    "\<not> truthy_data (training_customer (linked_training ''t/1'' :: loaded_training))"
    "customer_name (training_customer (linked_training ''t/1'' :: loaded_training)) = None"
    by (simp_all add: linked_training_def bare_training_def truthy_data_def customer_name_def)
  have answer: "?srv [] (get_request (href (t_customer ?links))) = Responds ?r" "ok ?r"
    by (simp_all add: always_def ok_def)
  have column: "customer_column ?srv [linked_training ''t/1'', linked_training ''t/2'']
      (linked_training ''t/1'') [] =
      (Inr (''Loading...'', []), [] @ [get_request (href (t_customer ?links))])"
    using row(3,1,2) answer by (rule customer_column_apply)
  have closure: "fetchCustomerForTraining ?srv [linked_training ''t/1'', linked_training ''t/2'']
      (linked_training ''t/1'') [] =
      (Inr (Some (merge_customer (linked_training ''t/1'') (json ?r)
                    [linked_training ''t/1'', linked_training ''t/2''])),
       [] @ [get_request (href (t_customer ?links))])"
    using row(1,2) answer by (rule fetchCustomerForTraining_apply)
  show ?thesis
    using column closure
    by (simp add: merge_customer_def t_links_self_href_def linked_training_def)
qed

end
